theory Spec2Isabelle
  imports Complex_Main "HOL-Library.Sublist"
begin

section \<open>JavaScript values\<close>

text \<open>
  The gateway is an Express application in two variants: \<^verbatim>\<open>server.js\<close> and a hardened
  copy of it (input validation, \<^verbatim>\<open>response.ok\<close> checks). Both are embedded here, the
  hardened handlers under the plain names, the \<^verbatim>\<open>server.js\<close> handlers with the
  prefix \<open>server_\<close>; the code the two files share is embedded once.

  Strings are \<open>string\<close>, read as ASCII text: \<open>trim\<close> and \<open>toLowerCase\<close> act on the
  ASCII white space and the letters A-Z. Numbers are exact rationals together with
  \<open>NaN\<close> and the two infinities; rounding to binary64 inside the finite range and the
  sign of zero are not represented, overflow to an infinity is.
\<close>

datatype number = NaN | PosInf | NegInf | Fin rat

datatype jsval =
    JUndefined
  | JNull
  | JBool bool
  | JNum number
  | JStr string
  | JArr "jsval list"
  | JObj "(string \<times> jsval) list"

datatype exn = TypeError | SyntaxError | FetchError

subsection \<open>String methods\<close>

definition is_ws :: "char \<Rightarrow> bool" where
  "is_ws c = (c \<in> set [CHR 0x09, CHR 0x0A, CHR 0x0B, CHR 0x0C, CHR 0x0D, CHR '' ''])"

definition trimStart :: "string \<Rightarrow> string" where
  "trimStart s = dropWhile is_ws s"

definition trim :: "string \<Rightarrow> string" where
  "trim s = rev (dropWhile is_ws (rev (dropWhile is_ws s)))"

text \<open>\<^verbatim>\<open>s.includes(t)\<close>: \<open>t\<close> occurs in \<open>s\<close> as a contiguous substring.\<close>

fun str_includes :: "string \<Rightarrow> string \<Rightarrow> bool" where
  "str_includes [] t = (t = [])"
| "str_includes (c # cs) t = (prefix t (c # cs) \<or> str_includes cs t)"

text \<open>\<^verbatim>\<open>s.split(sep)\<close> for a separator of one character.\<close>

fun split_on :: "char \<Rightarrow> string \<Rightarrow> string list" where
  "split_on sep [] = [[]]"
| "split_on sep (c # cs) =
     (if c = sep then [] # split_on sep cs
      else (case split_on sep cs of
              [] \<Rightarrow> [[c]]
            | x # xs \<Rightarrow> (c # x) # xs))"

text \<open>
  \<^verbatim>\<open>s.replace(pat, rep)\<close> for a string pattern: only the first occurrence is replaced.
  Both call sites pass the empty replacement, so the \<^verbatim>\<open>$\<close> patterns of the
  replacement text play no part.
\<close>

fun replace :: "string \<Rightarrow> string \<Rightarrow> string \<Rightarrow> string" where
  "replace pat rep [] = (if pat = [] then rep else [])"
| "replace pat rep (c # cs) =
     (if prefix pat (c # cs) then rep @ drop (length pat) (c # cs)
      else c # replace pat rep cs)"

definition lower_char :: "char \<Rightarrow> char" where
  "lower_char c =
     (case map_of (zip ''ABCDEFGHIJKLMNOPQRSTUVWXYZ'' ''abcdefghijklmnopqrstuvwxyz'') c of
        None \<Rightarrow> c
      | Some d \<Rightarrow> d)"

definition toLowerCase :: "string \<Rightarrow> string" where
  "toLowerCase s = map lower_char s"

subsection \<open>Numbers from strings\<close>

definition digit10 :: "char \<Rightarrow> nat option" where
  "digit10 c = map_of (zip ''0123456789'' [0, 1, 2, 3, 4, 5, 6, 7, 8, 9]) c"

definition digit16 :: "char \<Rightarrow> nat option" where
  "digit16 c =
     map_of (zip ''0123456789abcdefABCDEF''
                 [0, 1, 2, 3, 4, 5, 6, 7, 8, 9, 10, 11, 12, 13, 14, 15, 10, 11, 12, 13, 14, 15]) c"

definition digit8 :: "char \<Rightarrow> nat option" where
  "digit8 c = map_of (zip ''01234567'' [0, 1, 2, 3, 4, 5, 6, 7]) c"

definition digit2 :: "char \<Rightarrow> nat option" where
  "digit2 c = map_of (zip ''01'' [0, 1]) c"

definition digits_value :: "nat \<Rightarrow> (char \<Rightarrow> nat option) \<Rightarrow> string \<Rightarrow> nat" where
  "digits_value base dig s =
     foldl (\<lambda>a c. case dig c of None \<Rightarrow> a | Some d \<Rightarrow> base * a + d) 0 s"

text \<open>
  A mathematical value becomes a Number: at or beyond \<open>2^1024 - 2^970\<close> in magnitude
  it rounds to an infinity, below it is kept exact.
\<close>

definition to_double :: "rat \<Rightarrow> number" where
  "to_double q =
     (if \<bar>q\<bar> \<ge> 2 ^ 1024 - 2 ^ 970 then (if q > 0 then PosInf else NegInf) else Fin q)"

definition negate :: "number \<Rightarrow> number" where
  "negate n = (case n of NaN \<Rightarrow> NaN | PosInf \<Rightarrow> NegInf | NegInf \<Rightarrow> PosInf | Fin q \<Rightarrow> Fin (- q))"

text \<open>
  \<^verbatim>\<open>parseInt(string)\<close> with no radix: leading white space is skipped, a sign is read,
  a \<^verbatim>\<open>0x\<close> prefix selects radix 16, and the longest run of digits is the value;
  no digit at all gives \<open>NaN\<close>.
\<close>

definition parseInt :: "string \<Rightarrow> number" where
  "parseInt str =
     (let s = trimStart str;
          neg = (s \<noteq> [] \<and> hd s = CHR ''-'');
          s1 = (if s \<noteq> [] \<and> (hd s = CHR ''-'' \<or> hd s = CHR ''+'') then tl s else s);
          hex = (prefix ''0x'' s1 \<or> prefix ''0X'' s1);
          s2 = (if hex then drop 2 s1 else s1);
          dig = (if hex then digit16 else digit10);
          z = takeWhile (\<lambda>c. dig c \<noteq> None) s2
      in if z = [] then NaN
         else to_double ((if neg then - 1 else 1) *
                of_nat (digits_value (if hex then 16 else 10) dig z)))"

text \<open>
  The longest prefix of a string that is an unsigned decimal literal
  (\<^verbatim>\<open>Infinity\<close>, \<^verbatim>\<open>12\<close>, \<^verbatim>\<open>12.\<close>, \<^verbatim>\<open>12.5\<close>, \<^verbatim>\<open>.5\<close>, each number with an optional
  exponent), with its value and the text left over.
\<close>

definition exponent_part :: "string \<Rightarrow> (int \<times> string) option" where
  "exponent_part s =
     (case s of
        [] \<Rightarrow> None
      | e # r \<Rightarrow>
          if e = CHR ''e'' \<or> e = CHR ''E'' then
            (let neg = (r \<noteq> [] \<and> hd r = CHR ''-'');
                 r1 = (if r \<noteq> [] \<and> (hd r = CHR ''-'' \<or> hd r = CHR ''+'') then tl r else r);
                 ds = takeWhile (\<lambda>c. digit10 c \<noteq> None) r1
             in if ds = [] then None
                else Some ((if neg then - 1 else 1) * int (digits_value 10 digit10 ds),
                           drop (length ds) r1))
          else None)"

definition scale10 :: "rat \<Rightarrow> int \<Rightarrow> rat" where
  "scale10 m e = (if e \<ge> 0 then m * 10 ^ nat e else m / 10 ^ nat (- e))"

definition unsigned_decimal :: "string \<Rightarrow> (number \<times> string) option" where
  "unsigned_decimal s =
     (if prefix ''Infinity'' s then Some (PosInf, drop 8 s)
      else
        (let ip = takeWhile (\<lambda>c. digit10 c \<noteq> None) s;
             r = drop (length ip) s;
             dot = (r \<noteq> [] \<and> hd r = CHR ''.'');
             fp = (if dot then takeWhile (\<lambda>c. digit10 c \<noteq> None) (tl r) else []);
             r1 = (if dot then drop (length fp) (tl r) else r)
         in if ip = [] \<and> fp = [] then None
            else
              (let m = of_nat (digits_value 10 digit10 (ip @ fp)) / 10 ^ length fp
               in case exponent_part r1 of
                    None \<Rightarrow> Some (to_double m, r1)
                  | Some (e, r2) \<Rightarrow> Some (to_double (scale10 m e), r2))))"

definition decimal_prefix :: "string \<Rightarrow> (number \<times> string) option" where
  "decimal_prefix s =
     (if s \<noteq> [] \<and> hd s = CHR ''-'' then
        map_option (\<lambda>(v, r). (negate v, r)) (unsigned_decimal (tl s))
      else if s \<noteq> [] \<and> hd s = CHR ''+'' then unsigned_decimal (tl s)
      else unsigned_decimal s)"

text \<open>\<^verbatim>\<open>parseFloat(string)\<close>: the longest decimal literal after the leading white space.\<close>

definition parseFloat :: "string \<Rightarrow> number" where
  "parseFloat str =
     (case decimal_prefix (trimStart str) of None \<Rightarrow> NaN | Some (v, r) \<Rightarrow> v)"

text \<open>
  \<^verbatim>\<open>Number(string)\<close>: the whole trimmed string must be a numeric literal; the empty
  string is 0, and an unsigned \<^verbatim>\<open>0x\<close>, \<^verbatim>\<open>0o\<close> or \<^verbatim>\<open>0b\<close> literal is read in its radix.
\<close>

definition radix_literal :: "nat \<Rightarrow> (char \<Rightarrow> nat option) \<Rightarrow> string \<Rightarrow> number" where
  "radix_literal base dig ds =
     (if ds \<noteq> [] \<and> list_all (\<lambda>c. dig c \<noteq> None) ds
      then to_double (of_nat (digits_value base dig ds)) else NaN)"

definition Number :: "string \<Rightarrow> number" where
  "Number str =
     (let t = trim str in
      if t = [] then Fin 0
      else if prefix ''0x'' t \<or> prefix ''0X'' t then radix_literal 16 digit16 (drop 2 t)
      else if prefix ''0o'' t \<or> prefix ''0O'' t then radix_literal 8 digit8 (drop 2 t)
      else if prefix ''0b'' t \<or> prefix ''0B'' t then radix_literal 2 digit2 (drop 2 t)
      else (case decimal_prefix t of
              None \<Rightarrow> NaN
            | Some (v, r) \<Rightarrow> if r = [] then v else NaN))"

definition isFinite :: "number \<Rightarrow> bool" where
  "isFinite n = (case n of Fin q \<Rightarrow> True | _ \<Rightarrow> False)"

subsection \<open>Numbers to strings\<close>

definition digit_char :: "nat \<Rightarrow> char" where
  "digit_char d = ''0123456789'' ! (d mod 10)"

fun show_nat :: "nat \<Rightarrow> string" where
  "show_nat n = (if n < 10 then [digit_char n] else show_nat (n div 10) @ [digit_char (n mod 10)])"

declare show_nat.simps [simp del]

definition show_int :: "int \<Rightarrow> string" where
  "show_int i = (if i < 0 then CHR ''-'' # show_nat (nat (- i)) else show_nat (nat i))"

text \<open>
  The text of a Number in a template literal. It is applied to integral values only
  (results of \<^verbatim>\<open>Math.round\<close>, \<^verbatim>\<open>Math.floor\<close> and \<^verbatim>\<open>%\<close>), below the magnitude
  \<open>10^21\<close> where JavaScript switches to exponent notation.
\<close>

definition numToString :: "number \<Rightarrow> string" where
  "numToString n =
     (case n of
        NaN \<Rightarrow> ''NaN''
      | PosInf \<Rightarrow> ''Infinity''
      | NegInf \<Rightarrow> ''-Infinity''
      | Fin q \<Rightarrow> show_int \<lfloor>q\<rfloor>)"

section \<open>Unit formatter\<close>

definition Math_round :: "number \<Rightarrow> number" where
  "Math_round n = (case n of Fin q \<Rightarrow> Fin (of_int \<lfloor>q + 1 / 2\<rfloor>) | _ \<Rightarrow> n)"

definition Math_floor :: "number \<Rightarrow> number" where
  "Math_floor n = (case n of Fin q \<Rightarrow> Fin (of_int \<lfloor>q\<rfloor>) | _ \<Rightarrow> n)"

definition div_by :: "number \<Rightarrow> rat \<Rightarrow> number" where
  "div_by n d = (case n of Fin q \<Rightarrow> Fin (q / d) | _ \<Rightarrow> n)"

text \<open>\<^verbatim>\<open>n % d\<close> for a positive divisor: the remainder takes the sign of the dividend.\<close>

definition rem_by :: "number \<Rightarrow> int \<Rightarrow> number" where
  "rem_by n d =
     (case n of
        Fin q \<Rightarrow> Fin (if q \<ge> 0 then q - of_int (\<lfloor>q / of_int d\<rfloor> * d)
                      else - ((- q) - of_int (\<lfloor>(- q) / of_int d\<rfloor> * d)))
      | _ \<Rightarrow> NaN)"

definition less_than :: "number \<Rightarrow> rat \<Rightarrow> bool" where
  "less_than n b = (case n of Fin q \<Rightarrow> q < b | NegInf \<Rightarrow> True | _ \<Rightarrow> False)"

definition formatDuration :: "number \<Rightarrow> string" where
  "formatDuration seconds =
     (let mins = Math_round (div_by seconds 60) in
      if less_than mins 60 then numToString mins @ '' mins''
      else numToString (Math_floor (div_by mins 60)) @ '' hr '' @
           numToString (rem_by mins 60) @ '' mins'')"

section \<open>Values, truthiness and member access\<close>

definition nullish :: "jsval \<Rightarrow> bool" where
  "nullish v = (v = JUndefined \<or> v = JNull)"

fun truthy :: "jsval \<Rightarrow> bool" where
  "truthy JUndefined = False"
| "truthy JNull = False"
| "truthy (JBool b) = b"
| "truthy (JNum n) = (n \<noteq> NaN \<and> n \<noteq> Fin 0)"
| "truthy (JStr s) = (s \<noteq> [])"
| "truthy (JArr xs) = True"
| "truthy (JObj kvs) = True"

text \<open>\<^verbatim>\<open>a || b\<close> on values.\<close>

definition js_or :: "jsval \<Rightarrow> jsval \<Rightarrow> jsval" where
  "js_or a b = (if truthy a then a else b)"

text \<open>
  Reading a member \<^verbatim>\<open>v.k\<close> of a value that is neither \<^verbatim>\<open>undefined\<close> nor
  \<^verbatim>\<open>null\<close>. An object gives the value bound to the key, strings and arrays have a
  \<^verbatim>\<open>length\<close>; every other name the handlers read is found on no prototype and gives
  \<^verbatim>\<open>undefined\<close>.
\<close>

fun lookup :: "jsval \<Rightarrow> string \<Rightarrow> jsval" where
  "lookup (JObj kvs) k = (case map_of kvs k of None \<Rightarrow> JUndefined | Some v \<Rightarrow> v)"
| "lookup (JStr s) k = (if k = ''length'' then JNum (Fin (of_nat (length s))) else JUndefined)"
| "lookup (JArr xs) k = (if k = ''length'' then JNum (Fin (of_nat (length xs))) else JUndefined)"
| "lookup v k = JUndefined"

text \<open>
  \<^verbatim>\<open>v.k\<close> raises a TypeError on \<^verbatim>\<open>undefined\<close> and \<^verbatim>\<open>null\<close>;
  \<^verbatim>\<open>v?.k\<close> gives \<^verbatim>\<open>undefined\<close> there.
\<close>

definition member :: "jsval \<Rightarrow> string \<Rightarrow> exn + jsval" where
  "member v k = (if nullish v then Inl TypeError else Inr (lookup v k))"

definition opt_member :: "jsval \<Rightarrow> string \<Rightarrow> jsval" where
  "opt_member v k = (if nullish v then JUndefined else lookup v k)"

subsection \<open>Method calls on values\<close>

text \<open>
  A method call on a value that has no such method raises a TypeError.
  \<^verbatim>\<open>includes\<close> exists on strings (substring) and on arrays (membership),
  \<^verbatim>\<open>toLowerCase\<close> and \<^verbatim>\<open>replace\<close> on strings, \<^verbatim>\<open>some\<close>, \<^verbatim>\<open>filter\<close> and
  \<^verbatim>\<open>map\<close> on arrays.
\<close>

definition call_includes :: "jsval \<Rightarrow> string \<Rightarrow> exn + bool" where
  "call_includes v t =
     (case v of
        JStr s \<Rightarrow> Inr (str_includes s t)
      | JArr xs \<Rightarrow> Inr (JStr t \<in> set xs)
      | _ \<Rightarrow> Inl TypeError)"

definition call_toLowerCase :: "jsval \<Rightarrow> exn + string" where
  "call_toLowerCase v = (case v of JStr s \<Rightarrow> Inr (toLowerCase s) | _ \<Rightarrow> Inl TypeError)"

definition call_replace :: "jsval \<Rightarrow> string \<Rightarrow> string \<Rightarrow> exn + string" where
  "call_replace v pat rep = (case v of JStr s \<Rightarrow> Inr (replace pat rep s) | _ \<Rightarrow> Inl TypeError)"

text \<open>\<^verbatim>\<open>a || b\<close> on conditions that may raise: \<open>b\<close> counts only when \<open>a\<close> is false.\<close>

definition or_err :: "exn + bool \<Rightarrow> exn + bool \<Rightarrow> exn + bool" where
  "or_err a b = (case a of Inl e \<Rightarrow> Inl e | Inr x \<Rightarrow> if x then Inr True else b)"

fun some_err :: "('a \<Rightarrow> exn + bool) \<Rightarrow> 'a list \<Rightarrow> exn + bool" where
  "some_err f [] = Inr False"
| "some_err f (x # xs) =
     (case f x of Inl e \<Rightarrow> Inl e | Inr b \<Rightarrow> if b then Inr True else some_err f xs)"

fun filter_err :: "('a \<Rightarrow> exn + bool) \<Rightarrow> 'a list \<Rightarrow> exn + 'a list" where
  "filter_err f [] = Inr []"
| "filter_err f (x # xs) =
     (case f x of
        Inl e \<Rightarrow> Inl e
      | Inr b \<Rightarrow> (case filter_err f xs of
                    Inl e \<Rightarrow> Inl e
                  | Inr ys \<Rightarrow> Inr (if b then x # ys else ys)))"

fun map_err :: "('a \<Rightarrow> exn + 'b) \<Rightarrow> 'a list \<Rightarrow> exn + 'b list" where
  "map_err f [] = Inr []"
| "map_err f (x # xs) =
     (case f x of
        Inl e \<Rightarrow> Inl e
      | Inr y \<Rightarrow> (case map_err f xs of Inl e \<Rightarrow> Inl e | Inr ys \<Rightarrow> Inr (y # ys)))"

definition call_some :: "jsval \<Rightarrow> (jsval \<Rightarrow> exn + bool) \<Rightarrow> exn + bool" where
  "call_some v f = (case v of JArr xs \<Rightarrow> some_err f xs | _ \<Rightarrow> Inl TypeError)"

section \<open>Nightlife classifier and venue normalizer\<close>

text \<open>
  The filter callback of \<^verbatim>\<open>GET /api/places/nearby\<close>, the same in both files:
  \<^verbatim>\<open>
  place => {
      const primaryType = place.primaryType || '';
      const types = place.types || [];
      const name = (place.displayName?.text || '').toLowerCase();
      return barTypes.some(bt =>
          primaryType.includes(bt) ||
          types.some(t => t.includes(bt) || t.includes('bar')) ||
          name.includes('bar') || name.includes('lounge') ||
          name.includes('club') || name.includes('pub'));
  }\<close>
\<close>

definition barTypes :: "string list" where
  "barTypes = [''bar'', ''night_club'', ''pub'', ''wine_bar'', ''cocktail_bar'', ''lounge'']"

definition name_matches :: "string \<Rightarrow> bool" where
  "name_matches name =
     (str_includes name ''bar'' \<or> str_includes name ''lounge'' \<or>
      str_includes name ''club'' \<or> str_includes name ''pub'')"

definition bar_filter :: "jsval \<Rightarrow> exn + bool" where
  "bar_filter place =
     (if nullish place then Inl TypeError
      else
        (let primaryType = js_or (lookup place ''primaryType'') (JStr []);
             types = js_or (lookup place ''types'') (JArr [])
         in case call_toLowerCase
                   (js_or (opt_member (lookup place ''displayName'') ''text'') (JStr [])) of
              Inl e \<Rightarrow> Inl e
            | Inr name \<Rightarrow>
                some_err
                  (\<lambda>bt. or_err (call_includes primaryType bt)
                          (or_err (call_some types
                                     (\<lambda>t. or_err (call_includes t bt) (call_includes t ''bar'')))
                                  (Inr (name_matches name))))
                  barTypes))"

text \<open>
  The map callback of \<^verbatim>\<open>GET /api/places/nearby\<close> and the object built for each lookup of
  \<^verbatim>\<open>GET /api/places/details\<close>, the same text at all four places:
  \<^verbatim>\<open>
  place => ({
      place_id: place.id,
      name: place.displayName?.text || 'Unknown',
      geometry: { location: { lat: place.location?.latitude, lng: place.location?.longitude } },
      rating: place.rating || 0,
      user_ratings_total: place.userRatingCount || 0,
      price_level: place.priceLevel ? parseInt(place.priceLevel.replace('PRICE_LEVEL_', '')) : 3,
      vicinity: place.formattedAddress || '',
      types: place.types || [],
      opening_hours: { open_now: place.currentOpeningHours?.openNow },
      phone: place.internationalPhoneNumber || null,
      website: place.websiteUri || null,
      maps_url: place.googleMapsUri || null
  })\<close>
\<close>

definition price_level :: "jsval \<Rightarrow> exn + jsval" where
  "price_level priceLevel =
     (if truthy priceLevel then
        (case call_replace priceLevel ''PRICE_LEVEL_'' [] of
           Inl e \<Rightarrow> Inl e
         | Inr s \<Rightarrow> Inr (JNum (parseInt s)))
      else Inr (JNum (Fin 3)))"

definition place_to_venue :: "jsval \<Rightarrow> exn + jsval" where
  "place_to_venue place =
     (if nullish place then Inl TypeError
      else
        (case price_level (lookup place ''priceLevel'') of
           Inl e \<Rightarrow> Inl e
         | Inr pl \<Rightarrow>
             Inr (JObj
               [(''place_id'', lookup place ''id''),
                (''name'', js_or (opt_member (lookup place ''displayName'') ''text'')
                                 (JStr ''Unknown'')),
                (''geometry'', JObj [(''location'', JObj
                   [(''lat'', opt_member (lookup place ''location'') ''latitude''),
                    (''lng'', opt_member (lookup place ''location'') ''longitude'')])]),
                (''rating'', js_or (lookup place ''rating'') (JNum (Fin 0))),
                (''user_ratings_total'', js_or (lookup place ''userRatingCount'') (JNum (Fin 0))),
                (''price_level'', pl),
                (''vicinity'', js_or (lookup place ''formattedAddress'') (JStr [])),
                (''types'', js_or (lookup place ''types'') (JArr [])),
                (''opening_hours'', JObj
                   [(''open_now'', opt_member (lookup place ''currentOpeningHours'') ''openNow'')]),
                (''phone'', js_or (lookup place ''internationalPhoneNumber'') JNull),
                (''website'', js_or (lookup place ''websiteUri'') JNull),
                (''maps_url'', js_or (lookup place ''googleMapsUri'') JNull)])))"

text \<open>
  The place record of the upstream interface: an object in which every field may be
  absent and each field that is present has its documented type.
\<close>

definition absent_or :: "(jsval \<Rightarrow> bool) \<Rightarrow> jsval \<Rightarrow> bool" where
  "absent_or P v = (v = JUndefined \<or> P v)"

definition is_str :: "jsval \<Rightarrow> bool" where
  "is_str v = (case v of JStr s \<Rightarrow> True | _ \<Rightarrow> False)"

definition is_num :: "jsval \<Rightarrow> bool" where
  "is_num v = (case v of JNum n \<Rightarrow> True | _ \<Rightarrow> False)"

definition is_bool :: "jsval \<Rightarrow> bool" where
  "is_bool v = (case v of JBool b \<Rightarrow> True | _ \<Rightarrow> False)"

definition is_obj :: "jsval \<Rightarrow> bool" where
  "is_obj v = (case v of JObj kvs \<Rightarrow> True | _ \<Rightarrow> False)"

definition is_str_array :: "jsval \<Rightarrow> bool" where
  "is_str_array v = (case v of JArr xs \<Rightarrow> list_all is_str xs | _ \<Rightarrow> False)"

definition well_formed_place :: "jsval \<Rightarrow> bool" where
  "well_formed_place place =
     (is_obj place \<and>
      absent_or is_str (lookup place ''id'') \<and>
      absent_or (\<lambda>d. is_obj d \<and> absent_or is_str (lookup d ''text''))
                (lookup place ''displayName'') \<and>
      absent_or is_str (lookup place ''formattedAddress'') \<and>
      absent_or (\<lambda>l. is_obj l \<and> absent_or is_num (lookup l ''latitude'') \<and>
                     absent_or is_num (lookup l ''longitude''))
                (lookup place ''location'') \<and>
      absent_or is_num (lookup place ''rating'') \<and>
      absent_or is_num (lookup place ''userRatingCount'') \<and>
      absent_or is_str (lookup place ''priceLevel'') \<and>
      absent_or (\<lambda>h. is_obj h \<and> absent_or is_bool (lookup h ''openNow''))
                (lookup place ''currentOpeningHours'') \<and>
      absent_or is_str_array (lookup place ''types'') \<and>
      absent_or is_str (lookup place ''primaryType'') \<and>
      absent_or is_str (lookup place ''internationalPhoneNumber'') \<and>
      absent_or is_str (lookup place ''websiteUri'') \<and>
      absent_or is_str (lookup place ''googleMapsUri''))"

section \<open>Requests, upstream answers and replies\<close>

text \<open>
  A handler is a function of the configuration (\<^verbatim>\<open>GOOGLE_API_KEY\<close>), the upstream
  provider and the query parameters. It returns the upstream requests it issued, in
  order, and its reply. A query parameter is absent or a string. A request with a body
  carries the value handed to \<^verbatim>\<open>JSON.stringify\<close>; a lookup carries the identifier
  put into its URL.

  \<^verbatim>\<open>fetch\<close> either rejects or resolves with a status and a body; the body is \<open>None\<close>
  when it is not JSON, and then \<^verbatim>\<open>response.json()\<close> rejects.
  Every handler body sits in \<^verbatim>\<open>try { ... } catch (error) { res.status(500).json({ error:
  error.message }) }\<close>: \<open>Caught e\<close> is that reply.
\<close>

datatype fetch_result = Rejected | Response nat "jsval option"

datatype request =
    SearchText jsval
  | PlaceLookup string
  | ComputeRoutes jsval

datatype reply = Json nat jsval | Caught exn

type_synonym upstream = "request \<Rightarrow> fetch_result"

definition ok :: "nat \<Rightarrow> bool" where
  "ok st = (200 \<le> st \<and> st \<le> 299)"

definition status_of :: "reply \<Rightarrow> nat" where
  "status_of r = (case r of Json n v \<Rightarrow> n | Caught e \<Rightarrow> 500)"

definition run :: "exn + jsval \<Rightarrow> reply" where
  "run r = (case r of Inl e \<Rightarrow> Caught e | Inr v \<Rightarrow> Json 200 v)"

definition err :: "string \<Rightarrow> jsval" where
  "err msg = JObj [(''error'', JStr msg)]"

text \<open>Truthiness of an environment variable or query parameter.\<close>

definition present :: "string option \<Rightarrow> bool" where
  "present q = (case q of None \<Rightarrow> False | Some s \<Rightarrow> s \<noteq> [])"

definition configured :: "string option \<Rightarrow> bool" where
  "configured key = present key"

text \<open>\<^verbatim>\<open>parseFloat\<close> of a query parameter: \<^verbatim>\<open>undefined\<close> reads as the text "undefined".\<close>

definition parseFloat_q :: "string option \<Rightarrow> number" where
  "parseFloat_q q = (case q of None \<Rightarrow> NaN | Some s \<Rightarrow> parseFloat s)"

definition greater_zero :: "number \<Rightarrow> bool" where
  "greater_zero n = (case n of Fin q \<Rightarrow> q > 0 | PosInf \<Rightarrow> True | _ \<Rightarrow> False)"

section \<open>Nearby search\<close>

text \<open>
  The part of \<^verbatim>\<open>GET /api/places/nearby\<close> after \<^verbatim>\<open>const data = await response.json()\<close>,
  the same in both files:
  \<^verbatim>\<open>
  if (data.places) {
      const results = data.places.filter(...).map(...);
      res.json({ results, status: 'OK' });
  } else {
      res.json({ results: [], status: data.error ? 'ERROR' : 'ZERO_RESULTS', error: data.error });
  }\<close>
\<close>

definition nearby_results :: "jsval \<Rightarrow> exn + jsval" where
  "nearby_results data =
     (case member data ''places'' of
        Inl e \<Rightarrow> Inl e
      | Inr places \<Rightarrow>
          if truthy places then
            (case places of
               JArr ps \<Rightarrow>
                 (case filter_err bar_filter ps of
                    Inl e \<Rightarrow> Inl e
                  | Inr kept \<Rightarrow>
                      (case map_err place_to_venue kept of
                         Inl e \<Rightarrow> Inl e
                       | Inr results \<Rightarrow>
                           Inr (JObj [(''results'', JArr results), (''status'', JStr ''OK'')])))
             | _ \<Rightarrow> Inl TypeError)
          else
            Inr (JObj [(''results'', JArr []),
                       (''status'', JStr (if truthy (lookup data ''error'')
                                          then ''ERROR'' else ''ZERO_RESULTS'')),
                       (''error'', lookup data ''error'')]))"

definition text_query :: "string option \<Rightarrow> string" where
  "text_query keyword =
     (case keyword of
        None \<Rightarrow> ''bar lounge nightclub''
      | Some k \<Rightarrow> if k = [] then ''bar lounge nightclub'' else k)"

definition search_body :: "string \<Rightarrow> jsval \<Rightarrow> jsval \<Rightarrow> jsval \<Rightarrow> jsval" where
  "search_body textQuery latitude longitude radius =
     JObj [(''textQuery'', JStr textQuery),
           (''maxResultCount'', JNum (Fin 20)),
           (''locationBias'', JObj [(''circle'', JObj
              [(''center'', JObj [(''latitude'', latitude), (''longitude'', longitude)]),
               (''radius'', radius)])])]"

text \<open>The hardened handler: the coordinates are validated and a failed upstream status is a 502.\<close>

definition nearby_request ::
  "string option \<Rightarrow> string option \<Rightarrow> string option \<Rightarrow> string option \<Rightarrow> request" where
  "nearby_request lat lng radius keyword =
     (let searchRadius = parseFloat_q radius in
      SearchText (search_body (text_query keyword)
        (JNum (parseFloat_q lat)) (JNum (parseFloat_q lng))
        (JNum (if isFinite searchRadius \<and> greater_zero searchRadius
               then searchRadius else Fin 5000))))"

definition places_nearby ::
  "string option \<Rightarrow> upstream \<Rightarrow> string option \<Rightarrow> string option \<Rightarrow> string option \<Rightarrow>
   string option \<Rightarrow> request list \<times> reply" where
  "places_nearby key up lat lng radius keyword =
     (if \<not> configured key then ([], Json 500 (err ''API key not configured''))
      else if \<not> isFinite (parseFloat_q lat) \<or> \<not> isFinite (parseFloat_q lng)
      then ([], Json 400 (err ''lat and lng must be valid numbers''))
      else
        (let req = nearby_request lat lng radius keyword in
         case up req of
           Rejected \<Rightarrow> ([req], Caught FetchError)
         | Response st body \<Rightarrow>
             if \<not> ok st
             then ([req], Json 502 (err (''Places API failed with status '' @ show_nat st)))
             else (case body of
                     None \<Rightarrow> ([req], Caught SyntaxError)
                   | Some data \<Rightarrow> ([req], run (nearby_results data)))))"

text \<open>
  The handler of \<^verbatim>\<open>server.js\<close>: no validation of the coordinates, the radius is
  \<^verbatim>\<open>parseFloat(radius) || 5000.0\<close>, and the status of the upstream answer is not looked at.
\<close>

definition server_nearby_request ::
  "string option \<Rightarrow> string option \<Rightarrow> string option \<Rightarrow> string option \<Rightarrow> request" where
  "server_nearby_request lat lng radius keyword =
     SearchText (search_body (text_query keyword)
       (JNum (parseFloat_q lat)) (JNum (parseFloat_q lng))
       (js_or (JNum (parseFloat_q radius)) (JNum (Fin 5000))))"

definition server_places_nearby ::
  "string option \<Rightarrow> upstream \<Rightarrow> string option \<Rightarrow> string option \<Rightarrow> string option \<Rightarrow>
   string option \<Rightarrow> request list \<times> reply" where
  "server_places_nearby key up lat lng radius keyword =
     (if \<not> configured key then ([], Json 500 (err ''API key not configured''))
      else
        (let req = server_nearby_request lat lng radius keyword in
         case up req of
           Rejected \<Rightarrow> ([req], Caught FetchError)
         | Response st body \<Rightarrow>
             (case body of
                None \<Rightarrow> ([req], Caught SyntaxError)
              | Some data \<Rightarrow> ([req], run (nearby_results data)))))"

section \<open>Venue details\<close>

text \<open>
  One lookup of the batch. The hardened file reads:
  \<^verbatim>\<open>
  const response = await fetch(`https://places.googleapis.com/v1/places/${placeId}`, ...);
  if (!response.ok) return null;
  const place = await response.json();
  if (place.error) return null;
  return { place_id: place.id, ... };\<close>
  \<^verbatim>\<open>server.js\<close> has no \<^verbatim>\<open>response.ok\<close> line.
\<close>

definition place_or_null :: "jsval \<Rightarrow> exn + jsval" where
  "place_or_null place =
     (case member place ''error'' of
        Inl e \<Rightarrow> Inl e
      | Inr er \<Rightarrow> if truthy er then Inr JNull else place_to_venue place)"

definition lookup_place :: "upstream \<Rightarrow> string \<Rightarrow> exn + jsval" where
  "lookup_place up placeId =
     (case up (PlaceLookup placeId) of
        Rejected \<Rightarrow> Inl FetchError
      | Response st body \<Rightarrow>
          if \<not> ok st then Inr JNull
          else (case body of None \<Rightarrow> Inl SyntaxError | Some place \<Rightarrow> place_or_null place))"

definition server_lookup_place :: "upstream \<Rightarrow> string \<Rightarrow> exn + jsval" where
  "server_lookup_place up placeId =
     (case up (PlaceLookup placeId) of
        Rejected \<Rightarrow> Inl FetchError
      | Response st body \<Rightarrow>
          (case body of None \<Rightarrow> Inl SyntaxError | Some place \<Rightarrow> place_or_null place))"

text \<open>
  \<^verbatim>\<open>Promise.all(placeIds.map(async placeId => ...))\<close> starts every lookup, then joins
  the outcomes by position; one rejection rejects the whole. Which rejection is reported
  when several lookups reject depends on timing; the model reports the first in list order.
  \<^verbatim>\<open>results.filter(Boolean)\<close> then drops the \<^verbatim>\<open>null\<close> entries.
\<close>

definition join_lookups :: "(string \<Rightarrow> exn + jsval) \<Rightarrow> string list \<Rightarrow> request list \<times> reply" where
  "join_lookups look placeIds =
     (map PlaceLookup placeIds,
      case map_err look placeIds of
        Inl e \<Rightarrow> Caught e
      | Inr results \<Rightarrow>
          Json 200 (JObj [(''results'', JArr (filter truthy results)), (''status'', JStr ''OK'')]))"

text \<open>
  The hardened file: \<^verbatim>\<open>ids.split(',').map(id => id.trim()).filter(Boolean).slice(0, 10)\<close>.
\<close>

definition sanitize_ids :: "string \<Rightarrow> string list" where
  "sanitize_ids ids = take 10 (filter (\<lambda>s. s \<noteq> []) (map trim (split_on CHR '','' ids)))"

definition places_details :: "string option \<Rightarrow> upstream \<Rightarrow> string option \<Rightarrow> request list \<times> reply" where
  "places_details key up ids =
     (if \<not> configured key then ([], Json 500 (err ''API key not configured''))
      else
        (case ids of
           None \<Rightarrow> ([], Json 400 (err ''Missing ids parameter''))
         | Some s \<Rightarrow>
             if s = [] then ([], Json 400 (err ''Missing ids parameter''))
             else
               (let placeIds = sanitize_ids s in
                if placeIds = [] then ([], Json 400 (err ''No valid ids provided''))
                else join_lookups (lookup_place up) placeIds)))"

text \<open>\<^verbatim>\<open>server.js\<close>: \<^verbatim>\<open>ids.split(',').slice(0, 10)\<close>.\<close>

definition server_places_details ::
  "string option \<Rightarrow> upstream \<Rightarrow> string option \<Rightarrow> request list \<times> reply" where
  "server_places_details key up ids =
     (if \<not> configured key then ([], Json 500 (err ''API key not configured''))
      else
        (case ids of
           None \<Rightarrow> ([], Json 400 (err ''Missing ids parameter''))
         | Some s \<Rightarrow>
             if s = [] then ([], Json 400 (err ''Missing ids parameter''))
             else join_lookups (server_lookup_place up) (take 10 (split_on CHR '','' s))))"

section \<open>Directions\<close>

text \<open>
  The hardened file:
  \<^verbatim>\<open>
  function parseLatLng(value) {
      if (!value || typeof value !== 'string') return null;
      const [lat, lng] = value.split(',').map(Number);
      if (!Number.isFinite(lat) || !Number.isFinite(lng)) return null;
      return { lat, lng };
  }\<close>
  A missing second token leaves \<^verbatim>\<open>lng\<close> undefined, which is not finite.
\<close>

definition parseLatLng :: "string option \<Rightarrow> (number \<times> number) option" where
  "parseLatLng value =
     (case value of
        None \<Rightarrow> None
      | Some s \<Rightarrow>
          if s = [] then None
          else
            (case map Number (split_on CHR '','' s) of
               lat # lng # rest \<Rightarrow>
                 if \<not> isFinite lat \<or> \<not> isFinite lng then None else Some (lat, lng)
             | _ \<Rightarrow> None))"

text \<open>\<^verbatim>\<open>.filter(Boolean)\<close> on the parsed waypoints: the \<^verbatim>\<open>null\<close> entries go.\<close>

fun keep_some :: "'a option list \<Rightarrow> 'a list" where
  "keep_some [] = []"
| "keep_some (None # xs) = keep_some xs"
| "keep_some (Some x # xs) = x # keep_some xs"

definition location :: "jsval \<Rightarrow> jsval \<Rightarrow> jsval" where
  "location latitude longitude =
     JObj [(''location'', JObj [(''latLng'', JObj
       [(''latitude'', latitude), (''longitude'', longitude)])])]"

definition parsed_waypoints :: "string \<Rightarrow> (number \<times> number) list" where
  "parsed_waypoints waypoints =
     take 8 (keep_some (map (\<lambda>wp. parseLatLng (Some wp)) (split_on CHR ''|'' waypoints)))"

definition directions_request ::
  "number \<times> number \<Rightarrow> number \<times> number \<Rightarrow> string option \<Rightarrow> request" where
  "directions_request parsedOrigin parsedDestination waypoints =
     (let base = [(''origin'', location (JNum (fst parsedOrigin)) (JNum (snd parsedOrigin))),
                  (''destination'',
                     location (JNum (fst parsedDestination)) (JNum (snd parsedDestination))),
                  (''travelMode'', JStr ''DRIVE'')]
      in ComputeRoutes (JObj
           (case waypoints of
              None \<Rightarrow> base
            | Some w \<Rightarrow>
                if w = [] then base
                else
                  (let parsedWaypoints = parsed_waypoints w in
                   if parsedWaypoints \<noteq> []
                   then base @ [(''intermediates'',
                          JArr (map (\<lambda>wp. location (JNum (fst wp)) (JNum (snd wp)))
                                    parsedWaypoints))]
                   else base))))"

text \<open>
  \<^verbatim>\<open>ToNumber\<close> of a value, for the comparison \<^verbatim>\<open>data.routes?.length > 0\<close>. An array
  is converted through its text: empty gives 0, two or more elements give a text with a
  comma and so \<open>NaN\<close>, one element gives the number of that element's text.
\<close>

fun to_num :: "jsval \<Rightarrow> number" where
  "to_num JUndefined = NaN"
| "to_num JNull = Fin 0"
| "to_num (JBool b) = Fin (if b then 1 else 0)"
| "to_num (JNum n) = n"
| "to_num (JStr s) = Number s"
| "to_num (JObj kvs) = NaN"
| "to_num (JArr []) = Fin 0"
| "to_num (JArr [JUndefined]) = Fin 0"
| "to_num (JArr [JNull]) = Fin 0"
| "to_num (JArr [JBool b]) = NaN"
| "to_num (JArr [JObj kvs]) = NaN"
| "to_num (JArr [JNum n]) = n"
| "to_num (JArr [JStr s]) = Number s"
| "to_num (JArr [JArr xs]) = to_num (JArr xs)"
| "to_num (JArr (x # y # zs)) = NaN"

text \<open>\<^verbatim>\<open>data.routes[0]\<close>.\<close>

fun element0 :: "jsval \<Rightarrow> jsval" where
  "element0 (JArr xs) = (case xs of [] \<Rightarrow> JUndefined | x # rest \<Rightarrow> x)"
| "element0 (JStr s) = (case s of [] \<Rightarrow> JUndefined | c # rest \<Rightarrow> JStr [c])"
| "element0 (JObj kvs) = lookup (JObj kvs) ''0''"
| "element0 v = JUndefined"

definition call_map :: "jsval \<Rightarrow> (jsval \<Rightarrow> exn + jsval) \<Rightarrow> exn + jsval" where
  "call_map v f =
     (case v of
        JArr xs \<Rightarrow> (case map_err f xs of Inl e \<Rightarrow> Inl e | Inr ys \<Rightarrow> Inr (JArr ys))
      | _ \<Rightarrow> Inl TypeError)"

text \<open>
  One leg of the first route, the same in both files:
  \<^verbatim>\<open>
  leg => ({
      duration: { value: parseInt(leg.duration?.replace('s', '') || 0),
                  text: formatDuration(parseInt(leg.duration?.replace('s', '') || 0)) },
      distance: { value: leg.distanceMeters || 0, text: formatDistance(leg.distanceMeters || 0) }
  })\<close>
  \<^verbatim>\<open>formatDistance\<close> divides in binary64 and prints with \<^verbatim>\<open>toFixed(1)\<close>, whose
  result depends on the binary rounding of the quotient; it is a parameter of the model.
\<close>

definition leg_seconds :: "jsval \<Rightarrow> exn + number" where
  "leg_seconds leg =
     (case member leg ''duration'' of
        Inl e \<Rightarrow> Inl e
      | Inr d \<Rightarrow>
          if nullish d then Inr (parseInt ''0'')
          else (case call_replace d ''s'' [] of
                  Inl e \<Rightarrow> Inl e
                | Inr s \<Rightarrow> Inr (parseInt (if s = [] then ''0'' else s))))"

definition route_leg :: "(jsval \<Rightarrow> string) \<Rightarrow> jsval \<Rightarrow> exn + jsval" where
  "route_leg formatDistance leg =
     (case leg_seconds leg of
        Inl e \<Rightarrow> Inl e
      | Inr secs \<Rightarrow>
          (let meters = js_or (lookup leg ''distanceMeters'') (JNum (Fin 0)) in
           Inr (JObj
             [(''duration'', JObj [(''value'', JNum secs),
                                   (''text'', JStr (formatDuration secs))]),
              (''distance'', JObj [(''value'', meters),
                                   (''text'', JStr (formatDistance meters))])])))"

text \<open>
  The part of \<^verbatim>\<open>GET /api/directions\<close> after \<^verbatim>\<open>const data = await response.json()\<close>,
  the same in both files:
  \<^verbatim>\<open>
  if (data.routes?.length > 0) {
      const route = data.routes[0];
      res.json({ routes: [{ legs: route.legs.map(...),
                            overview_polyline: { points: route.polyline?.encodedPolyline || '' } }] });
  } else {
      res.json({ routes: [], error: data.error });
  }\<close>
\<close>

definition routes_reply :: "(jsval \<Rightarrow> string) \<Rightarrow> jsval \<Rightarrow> exn + jsval" where
  "routes_reply formatDistance data =
     (case member data ''routes'' of
        Inl e \<Rightarrow> Inl e
      | Inr routes \<Rightarrow>
          if greater_zero (to_num (opt_member routes ''length'')) then
            (let route = element0 routes in
             case member route ''legs'' of
               Inl e \<Rightarrow> Inl e
             | Inr legs \<Rightarrow>
                 (case call_map legs (route_leg formatDistance) of
                    Inl e \<Rightarrow> Inl e
                  | Inr ls \<Rightarrow>
                      Inr (JObj [(''routes'', JArr [JObj
                        [(''legs'', ls),
                         (''overview_polyline'', JObj
                            [(''points'',
                              js_or (opt_member (lookup route ''polyline'') ''encodedPolyline'')
                                    (JStr []))])]])])))
          else Inr (JObj [(''routes'', JArr []), (''error'', lookup data ''error'')]))"

text \<open>The hardened handler.\<close>

definition directions ::
  "string option \<Rightarrow> (jsval \<Rightarrow> string) \<Rightarrow> upstream \<Rightarrow> string option \<Rightarrow> string option \<Rightarrow>
   string option \<Rightarrow> request list \<times> reply" where
  "directions key formatDistance up origin destination waypoints =
     (if \<not> configured key then ([], Json 500 (err ''API key not configured''))
      else
        (case parseLatLng origin of
           None \<Rightarrow> ([], Json 400 (err ''origin and destination must be \"lat,lng\"''))
         | Some parsedOrigin \<Rightarrow>
             (case parseLatLng destination of
                None \<Rightarrow> ([], Json 400 (err ''origin and destination must be \"lat,lng\"''))
              | Some parsedDestination \<Rightarrow>
                  (let req = directions_request parsedOrigin parsedDestination waypoints in
                   case up req of
                     Rejected \<Rightarrow> ([req], Caught FetchError)
                   | Response st body \<Rightarrow>
                       if \<not> ok st
                       then ([req],
                             Json 502 (err (''Routes API failed with status '' @ show_nat st)))
                       else (case body of
                               None \<Rightarrow> ([req], Caught SyntaxError)
                             | Some data \<Rightarrow>
                                 ([req], run (routes_reply formatDistance data)))))))"

text \<open>
  \<^verbatim>\<open>server.js\<close> destructures the first two numbers of each text without a check:
  \<^verbatim>\<open>
  const [originLat, originLng] = origin.split(',').map(Number);
  ...
  if (waypoints) {
      requestBody.intermediates = waypoints.split('|').map(wp => {
          const [lat, lng] = wp.split(',').map(Number);
          return { location: { latLng: { latitude: lat, longitude: lng } } };
      });
  }\<close>
  A missing \<^verbatim>\<open>origin\<close> or \<^verbatim>\<open>destination\<close> raises a TypeError at \<^verbatim>\<open>split\<close>.
\<close>

definition number_pair :: "string \<Rightarrow> jsval \<times> jsval" where
  "number_pair s =
     (case map Number (split_on CHR '','' s) of
        [] \<Rightarrow> (JUndefined, JUndefined)
      | [lat] \<Rightarrow> (JNum lat, JUndefined)
      | lat # lng # rest \<Rightarrow> (JNum lat, JNum lng))"

definition server_directions_request :: "string \<Rightarrow> string \<Rightarrow> string option \<Rightarrow> request" where
  "server_directions_request origin destination waypoints =
     (let base = [(''origin'', location (fst (number_pair origin)) (snd (number_pair origin))),
                  (''destination'',
                     location (fst (number_pair destination)) (snd (number_pair destination))),
                  (''travelMode'', JStr ''DRIVE'')]
      in ComputeRoutes (JObj
           (case waypoints of
              None \<Rightarrow> base
            | Some w \<Rightarrow>
                if w = [] then base
                else base @ [(''intermediates'',
                       JArr (map (\<lambda>wp. location (fst (number_pair wp)) (snd (number_pair wp)))
                                 (split_on CHR ''|'' w)))])))"

definition server_directions ::
  "string option \<Rightarrow> (jsval \<Rightarrow> string) \<Rightarrow> upstream \<Rightarrow> string option \<Rightarrow> string option \<Rightarrow>
   string option \<Rightarrow> request list \<times> reply" where
  "server_directions key formatDistance up origin destination waypoints =
     (if \<not> configured key then ([], Json 500 (err ''API key not configured''))
      else
        (case origin of
           None \<Rightarrow> ([], Caught TypeError)
         | Some orig \<Rightarrow>
             (case destination of
                None \<Rightarrow> ([], Caught TypeError)
              | Some dest \<Rightarrow>
                  (let req = server_directions_request orig dest waypoints in
                   case up req of
                     Rejected \<Rightarrow> ([req], Caught FetchError)
                   | Response st body \<Rightarrow>
                       (case body of
                          None \<Rightarrow> ([req], Caught SyntaxError)
                        | Some data \<Rightarrow>
                            ([req], run (routes_reply formatDistance data)))))))"

section \<open>The documented behaviour, for comparison\<close>

text \<open>
  The classifier as the specification words it, over the fields of a place record:
  the keyword set is \<^verbatim>\<open>{bar, night_club, pub, wine_bar, cocktail_bar, lounge}\<close>; a
  candidate passes if its primary category contains a keyword, or one of its category
  tags contains a keyword or the substring "bar", or its display name, in lower case,
  contains "bar", "lounge", "club" or "pub".
\<close>

definition category_keywords :: "string list" where
  "category_keywords = [''bar'', ''night_club'', ''pub'', ''wine_bar'', ''cocktail_bar'', ''lounge'']"

definition primary_category :: "jsval \<Rightarrow> string" where
  "primary_category place = (case lookup place ''primaryType'' of JStr s \<Rightarrow> s | _ \<Rightarrow> [])"

definition tag_texts :: "jsval list \<Rightarrow> string list" where
  "tag_texts xs = concat (map (\<lambda>v. case v of JStr s \<Rightarrow> [s] | _ \<Rightarrow> []) xs)"

definition category_tags :: "jsval \<Rightarrow> string list" where
  "category_tags place = (case lookup place ''types'' of JArr xs \<Rightarrow> tag_texts xs | _ \<Rightarrow> [])"

definition display_name :: "jsval \<Rightarrow> string" where
  "display_name place =
     (case opt_member (lookup place ''displayName'') ''text'' of JStr s \<Rightarrow> s | _ \<Rightarrow> [])"

definition contains_keyword :: "string \<Rightarrow> bool" where
  "contains_keyword s = list_ex (str_includes s) category_keywords"

definition nightlife_spec :: "jsval \<Rightarrow> bool" where
  "nightlife_spec place =
     (contains_keyword (primary_category place) \<or>
      list_ex (\<lambda>t. contains_keyword t \<or> str_includes t ''bar'') (category_tags place) \<or>
      str_includes (toLowerCase (display_name place)) ''bar'' \<or>
      str_includes (toLowerCase (display_name place)) ''lounge'' \<or>
      str_includes (toLowerCase (display_name place)) ''club'' \<or>
      str_includes (toLowerCase (display_name place)) ''pub'')"

text \<open>
  What one lookup of the details batch can answer without making the lookup raise: a
  failed status, or a JSON body that carries an upstream error or is a place record.
\<close>

definition lookup_failed :: "fetch_result \<Rightarrow> bool" where
  "lookup_failed r =
     (case r of
        Rejected \<Rightarrow> False
      | Response st body \<Rightarrow>
          \<not> ok st \<or> (case body of None \<Rightarrow> False
                               | Some place \<Rightarrow> \<not> nullish place \<and> truthy (lookup place ''error'')))"

definition lookup_found :: "fetch_result \<Rightarrow> bool" where
  "lookup_found r =
     (case r of
        Rejected \<Rightarrow> False
      | Response st body \<Rightarrow>
          ok st \<and> (case body of None \<Rightarrow> False
                             | Some place \<Rightarrow> well_formed_place place \<and>
                                              \<not> truthy (lookup place ''error'')))"

text \<open>The place record an answer carries.\<close>

definition body_of :: "fetch_result \<Rightarrow> jsval" where
  "body_of r = (case r of Response st (Some place) \<Rightarrow> place | _ \<Rightarrow> JUndefined)"

section \<open>A sample upstream\<close>

text \<open>
  An upstream provider for the worked examples: the search finds a bar, a cafe and a
  club; the lookups know the identifiers \<^verbatim>\<open>a\<close> and \<^verbatim>\<open>c\<close> and answer 404 with an
  error body for every other one; no route is found.
\<close>

definition sample_places :: "jsval list" where
  "sample_places =
     [JObj [(''id'', JStr ''a''), (''displayName'', JObj [(''text'', JStr ''Alpha Bar'')])],
      JObj [(''id'', JStr ''b''), (''displayName'', JObj [(''text'', JStr ''Coffee House'')]),
            (''types'', JArr [JStr ''cafe''])],
      JObj [(''id'', JStr ''c''), (''primaryType'', JStr ''night_club'')]]"

definition sample_upstream :: upstream where
  "sample_upstream req =
     (case req of
        SearchText b \<Rightarrow> Response 200 (Some (JObj [(''places'', JArr sample_places)]))
      | PlaceLookup i \<Rightarrow>
          if i = ''a'' then Response 200 (Some (sample_places ! 0))
          else if i = ''c'' then Response 200 (Some (sample_places ! 2))
          else Response 404 (Some (JObj [(''error'', JObj [(''code'', JNum (Fin 404))])]))
      | ComputeRoutes b \<Rightarrow> Response 200 (Some (JObj [(''routes'', JArr [])])))"

section \<open>Evaluation and the error-passing combinators\<close>

text \<open>The rounding threshold of \<open>to_double\<close> as a numeral, for evaluation.\<close>

lemma to_double_code [code]:
  "to_double q =
     (if \<bar>q\<bar> \<ge> 179769313486231580793728971405303415079934132710037826936173778980444968292764750946649017977587207096330286416692887910946555547851940402630657488671505820681908902000708383676273854845817711531764475730270069855571366959622842914819860834936475292719074168444365510704342711559699508093042880177904174497792
      then (if q > 0 then PosInf else NegInf) else Fin q)"
  by (simp add: to_double_def)

lemma or_err_Inr [simp]: "or_err (Inr a) (Inr b) = Inr (a \<or> b)"
  by (simp add: or_err_def)

lemma some_err_total:
  "(\<And>x. x \<in> set xs \<Longrightarrow> f x = Inr (g x)) \<Longrightarrow> some_err f xs = Inr (list_ex g xs)"
  by (induction xs) auto

lemma filter_err_total:
  "(\<And>x. x \<in> set xs \<Longrightarrow> f x = Inr (g x)) \<Longrightarrow> filter_err f xs = Inr (filter g xs)"
  by (induction xs) auto

lemma map_err_total:
  "(\<And>x. x \<in> set xs \<Longrightarrow> f x = Inr (g x)) \<Longrightarrow> map_err f xs = Inr (map g xs)"
  by (induction xs) auto

lemma map_err_raises:
  "i \<in> set xs \<Longrightarrow> f i = Inl e \<Longrightarrow> \<exists>e'. map_err f xs = Inl e'"
proof (induction xs)
  case Nil
  then show ?case by simp
next
  case (Cons x xs)
  show ?case
  proof (cases "f x")
    case (Inl a)
    then show ?thesis by simp
  next
    case (Inr y)
    with Cons.prems have "i \<in> set xs" by auto
    with Cons.IH Cons.prems obtain e' where "map_err f xs = Inl e'" by blast
    with Inr show ?thesis by simp
  qed
qed

text \<open>The string methods against the list library.\<close>

lemma str_includes_sublist: "str_includes s t \<longleftrightarrow> sublist t s"
  by (induction s) (auto simp: sublist_Cons_right)

lemma split_on_nonempty: "split_on sep s \<noteq> []"
  by (induction s) (auto split: list.splits)

lemma split_on_no_separator: "p \<in> set (split_on sep s) \<Longrightarrow> sep \<notin> set p"
proof (induction s arbitrary: p)
  case Nil
  then show ?case by simp
next
  case (Cons c cs)
  then show ?case
    by (cases "split_on sep cs") (auto split: if_splits)
qed

lemma call_includes_JStr: "call_includes (JStr s) t = Inr (str_includes s t)"
  by (simp add: call_includes_def)

section \<open>Well-formed place records\<close>

lemma well_formed_not_nullish: "well_formed_place p \<Longrightarrow> \<not> nullish p"
  by (cases p) (auto simp: well_formed_place_def is_obj_def nullish_def)

lemma wf_primaryType:
  "well_formed_place p \<Longrightarrow> js_or (lookup p ''primaryType'') (JStr []) = JStr (primary_category p)"
  by (cases "lookup p ''primaryType''")
     (auto simp: well_formed_place_def absent_or_def is_str_def js_or_def primary_category_def)

lemma wf_types:
  "well_formed_place p \<Longrightarrow>
   \<exists>ts. js_or (lookup p ''types'') (JArr []) = JArr ts \<and> list_all is_str ts \<and>
        category_tags p = tag_texts ts"
  by (cases "lookup p ''types''")
     (auto simp: well_formed_place_def absent_or_def is_str_array_def js_or_def
                 category_tags_def tag_texts_def)

lemma wf_name:
  "well_formed_place p \<Longrightarrow>
   call_toLowerCase (js_or (opt_member (lookup p ''displayName'') ''text'') (JStr [])) =
   Inr (toLowerCase (display_name p))"
  by (cases "lookup p ''displayName''")
     (auto simp: well_formed_place_def absent_or_def is_str_def is_obj_def js_or_def
                 display_name_def opt_member_def nullish_def call_toLowerCase_def toLowerCase_def
           split: jsval.splits)

section \<open>The normalizer\<close>

lemma price_level_wf:
  "absent_or is_str v \<Longrightarrow> \<exists>n. price_level v = Inr (JNum n)"
  by (cases v) (auto simp: absent_or_def is_str_def price_level_def call_replace_def)

text \<open>The only way the normalizer raises on an object: a price tier that is not a string.\<close>

lemma price_level_raises_iff:
  "(\<exists>e. price_level v = Inl e) \<longleftrightarrow> (truthy v \<and> \<not> is_str v)"
  by (cases v) (auto simp: is_str_def price_level_def call_replace_def)

lemma place_to_venue_raises_iff:
  "\<not> nullish place \<Longrightarrow>
   (\<exists>e. place_to_venue place = Inl e) \<longleftrightarrow>
   (truthy (lookup place ''priceLevel'') \<and> \<not> is_str (lookup place ''priceLevel''))"
  using price_level_raises_iff[of "lookup place ''priceLevel''"]
  by (auto simp: place_to_venue_def split: sum.splits)

lemma place_to_venue_well_formed:
  assumes wf: "well_formed_place p"
  shows "\<exists>v. place_to_venue p = Inr v"
proof -
  from wf have "absent_or is_str (lookup p ''priceLevel'')"
    by (simp add: well_formed_place_def)
  then obtain n where "price_level (lookup p ''priceLevel'') = Inr (JNum n)"
    using price_level_wf by blast
  with well_formed_not_nullish[OF wf] show ?thesis
    by (simp add: place_to_venue_def)
qed

text \<open>
  C1. The normalizer is total on well-formed place records: it returns a venue for every
  object whose fields are absent or of their documented type. The record that has an
  identifier and nothing else becomes the venue with name "Unknown", rating 0, rating
  count 0, price level 3, empty address and no category tags.
\<close>

theorem place_to_venue_total:
  "(well_formed_place place \<longrightarrow> (\<exists>venue. place_to_venue place = Inr venue)) \<and>
   place_to_venue (JObj [(''id'', JStr i)]) =
     Inr (JObj
       [(''place_id'', JStr i),
        (''name'', JStr ''Unknown''),
        (''geometry'', JObj [(''location'', JObj [(''lat'', JUndefined), (''lng'', JUndefined)])]),
        (''rating'', JNum (Fin 0)),
        (''user_ratings_total'', JNum (Fin 0)),
        (''price_level'', JNum (Fin 3)),
        (''vicinity'', JStr []),
        (''types'', JArr []),
        (''opening_hours'', JObj [(''open_now'', JUndefined)]),
        (''phone'', JNull),
        (''website'', JNull),
        (''maps_url'', JNull)])"
proof
  show "well_formed_place place \<longrightarrow> (\<exists>venue. place_to_venue place = Inr venue)"
    using place_to_venue_well_formed by blast
next
  show "place_to_venue (JObj [(''id'', JStr i)]) =
     Inr (JObj
       [(''place_id'', JStr i),
        (''name'', JStr ''Unknown''),
        (''geometry'', JObj [(''location'', JObj [(''lat'', JUndefined), (''lng'', JUndefined)])]),
        (''rating'', JNum (Fin 0)),
        (''user_ratings_total'', JNum (Fin 0)),
        (''price_level'', JNum (Fin 3)),
        (''vicinity'', JStr []),
        (''types'', JArr []),
        (''opening_hours'', JObj [(''open_now'', JUndefined)]),
        (''phone'', JNull),
        (''website'', JNull),
        (''maps_url'', JNull)])"
    by (simp add: place_to_venue_def price_level_def nullish_def js_or_def opt_member_def)
qed

theorem place_to_venue_total_witness:
  "well_formed_place
     (JObj [(''id'', JStr ''ChIJ7'')
           , (''displayName'', JObj [(''text'', JStr ''The Anchor'')])
           , (''rating'', JNum (Fin (9 / 2)))
           , (''priceLevel'', JStr ''PRICE_LEVEL_2'')
           , (''types'', JArr [JStr ''pub'', JStr ''restaurant''])]) \<and>
   (\<exists>venue. place_to_venue
     (JObj [(''id'', JStr ''ChIJ7'')
           , (''displayName'', JObj [(''text'', JStr ''The Anchor'')])
           , (''rating'', JNum (Fin (9 / 2)))
           , (''priceLevel'', JStr ''PRICE_LEVEL_2'')
           , (''types'', JArr [JStr ''pub'', JStr ''restaurant''])]) = Inr venue)"
proof -
  have wf: "well_formed_place
     (JObj [(''id'', JStr ''ChIJ7'')
           , (''displayName'', JObj [(''text'', JStr ''The Anchor'')])
           , (''rating'', JNum (Fin (9 / 2)))
           , (''priceLevel'', JStr ''PRICE_LEVEL_2'')
           , (''types'', JArr [JStr ''pub'', JStr ''restaurant''])])"
    by (simp add: well_formed_place_def is_obj_def absent_or_def is_str_def is_num_def
                  is_str_array_def)
  with place_to_venue_total[of "JObj [(''id'', JStr ''ChIJ7'')
           , (''displayName'', JObj [(''text'', JStr ''The Anchor'')])
           , (''rating'', JNum (Fin (9 / 2)))
           , (''priceLevel'', JStr ''PRICE_LEVEL_2'')
           , (''types'', JArr [JStr ''pub'', JStr ''restaurant''])]" "''ChIJ7''"]
  show ?thesis by blast
qed

text \<open>The price tier where the mapping does what is documented.\<close>

lemma price_level_absent: "\<not> truthy v \<Longrightarrow> price_level v = Inr (JNum (Fin 3))"
  by (simp add: price_level_def)

lemma price_level_numbered:
  "price_level (JStr ''PRICE_LEVEL_0'') = Inr (JNum (Fin 0)) \<and>
   price_level (JStr ''PRICE_LEVEL_1'') = Inr (JNum (Fin 1)) \<and>
   price_level (JStr ''PRICE_LEVEL_2'') = Inr (JNum (Fin 2)) \<and>
   price_level (JStr ''PRICE_LEVEL_3'') = Inr (JNum (Fin 3)) \<and>
   price_level (JStr ''PRICE_LEVEL_4'') = Inr (JNum (Fin 4))"
  by code_simp

text \<open>
  C2. The price level is 3 when the tier is absent and 0 to 4 for the tokens
  \<^verbatim>\<open>PRICE_LEVEL_0\<close> to \<^verbatim>\<open>PRICE_LEVEL_4\<close>, but a token with no leading digit after
  the prefix does not fall back to 3: for \<^verbatim>\<open>PRICE_LEVEL_MODERATE\<close>, a tier the upstream
  sends, \<^verbatim>\<open>parseInt\<close> gives \<open>NaN\<close> and that is the venue's price level.
\<close>

theorem price_level_unrecognized_token:
  "price_level (JStr ''PRICE_LEVEL_MODERATE'') = Inr (JNum NaN) \<and>
   place_to_venue (JObj [(''id'', JStr ''ChIJ7''), (''priceLevel'', JStr ''PRICE_LEVEL_MODERATE'')]) =
     Inr (JObj
       [(''place_id'', JStr ''ChIJ7''),
        (''name'', JStr ''Unknown''),
        (''geometry'', JObj [(''location'', JObj [(''lat'', JUndefined), (''lng'', JUndefined)])]),
        (''rating'', JNum (Fin 0)),
        (''user_ratings_total'', JNum (Fin 0)),
        (''price_level'', JNum NaN),
        (''vicinity'', JStr []),
        (''types'', JArr []),
        (''opening_hours'', JObj [(''open_now'', JUndefined)]),
        (''phone'', JNull),
        (''website'', JNull),
        (''maps_url'', JNull)])"
  by code_simp

section \<open>The unit formatter\<close>

text \<open>
  C3, as documented: "0 mins" at 0, "1 mins" at 59, "1 hr 0 mins" at 60 and "2 hr 5 mins"
  at 125. The argument is a number of seconds, so 60 is one minute and the four values
  do not hold together.
\<close>

theorem formatDuration_documented_counterexample:
  "\<not> (formatDuration (Fin 0) = ''0 mins'' \<and>
      formatDuration (Fin 59) = ''1 mins'' \<and>
      formatDuration (Fin 60) = ''1 hr 0 mins'' \<and>
      formatDuration (Fin 125) = ''2 hr 5 mins'')"
  by code_simp

text \<open>
  C3, amended. \<open>formatDuration\<close> takes seconds: it gives "0 mins" at 0, "1 mins" at 59,
  "1 mins" at 60 and "2 mins" at 125; "1 hr 0 mins" is the text of 3600 seconds and
  "2 hr 5 mins" that of 7500 seconds.
\<close>

theorem formatDuration_seconds_examples:
  "formatDuration (Fin 0) = ''0 mins'' \<and>
   formatDuration (Fin 59) = ''1 mins'' \<and>
   formatDuration (Fin 60) = ''1 mins'' \<and>
   formatDuration (Fin 125) = ''2 mins'' \<and>
   formatDuration (Fin 3600) = ''1 hr 0 mins'' \<and>
   formatDuration (Fin 7500) = ''2 hr 5 mins''"
  by code_simp

section \<open>The classifier\<close>

lemma call_some_strings:
  assumes "list_all is_str ts"
  shows "call_some (JArr ts) (\<lambda>t. or_err (call_includes t bt) (call_includes t ''bar'')) =
         Inr (list_ex (\<lambda>s. str_includes s bt \<or> str_includes s ''bar'') (tag_texts ts))"
  using assms
proof (induction ts)
  case Nil
  then show ?case by (simp add: call_some_def tag_texts_def)
next
  case (Cons t ts)
  then obtain s where t: "t = JStr s" by (cases t) (auto simp: is_str_def)
  from Cons have "call_some (JArr ts) (\<lambda>t. or_err (call_includes t bt) (call_includes t ''bar'')) =
         Inr (list_ex (\<lambda>s. str_includes s bt \<or> str_includes s ''bar'') (tag_texts ts))"
    by simp
  then show ?case
    by (simp add: t call_some_def tag_texts_def call_includes_def)
qed

lemma bar_filter_well_formed:
  assumes wf: "well_formed_place p"
  shows "bar_filter p =
         Inr (list_ex (\<lambda>bt. str_includes (primary_category p) bt \<or>
                list_ex (\<lambda>s. str_includes s bt \<or> str_includes s ''bar'') (category_tags p) \<or>
                name_matches (toLowerCase (display_name p))) barTypes)"
proof -
  obtain ts where ts: "js_or (lookup p ''types'') (JArr []) = JArr ts" "list_all is_str ts"
      "category_tags p = tag_texts ts"
    using wf_types[OF wf] by blast
  have step: "\<And>bt. or_err (call_includes (JStr (primary_category p)) bt)
                 (or_err (call_some (JArr ts)
                            (\<lambda>t. or_err (call_includes t bt) (call_includes t ''bar'')))
                         (Inr (name_matches (toLowerCase (display_name p))))) =
              Inr (str_includes (primary_category p) bt \<or>
                list_ex (\<lambda>s. str_includes s bt \<or> str_includes s ''bar'') (category_tags p) \<or>
                name_matches (toLowerCase (display_name p)))"
    by (simp add: call_some_strings[OF ts(2)] ts(3) call_includes_JStr)
  show ?thesis
    unfolding bar_filter_def
    by (simp add: well_formed_not_nullish[OF wf] wf_primaryType[OF wf] ts(1) wf_name[OF wf]
                  Let_def step some_err_total)
qed

text \<open>
  The code tests the name once per keyword and the tags against "bar" once per keyword;
  as the keyword list is not empty, that is the documented disjunction.
\<close>

lemma nightlife_spec_unfold:
  "list_ex (\<lambda>bt. str_includes pc bt \<or>
                list_ex (\<lambda>s. str_includes s bt \<or> str_includes s ''bar'') tags \<or> nm) barTypes
   \<longleftrightarrow>
   (contains_keyword pc \<or> list_ex (\<lambda>t. contains_keyword t \<or> str_includes t ''bar'') tags \<or> nm)"
  unfolding barTypes_def contains_keyword_def category_keywords_def list_ex_iff
  by auto

lemma bar_filter_is_spec:
  "well_formed_place p \<Longrightarrow> bar_filter p = Inr (nightlife_spec p)"
  unfolding bar_filter_well_formed nightlife_spec_unfold nightlife_spec_def name_matches_def
  by simp

text \<open>
  C4. On a well-formed place record the classifier returns exactly the documented
  condition: the primary category contains a keyword, or a category tag contains a
  keyword or "bar", or the lower-cased display name contains "bar", "lounge", "club" or
  "pub". A record with primary category \<^verbatim>\<open>night_club\<close> passes whatever its name, a
  record named "Joe's Bar" with no category tags passes, and a record named
  "Coffee House" with the one tag \<^verbatim>\<open>cafe\<close> fails.
\<close>

theorem bar_filter_classifies:
  "(well_formed_place place \<longrightarrow> bar_filter place = Inr (nightlife_spec place)) \<and>
   (well_formed_place place \<and> lookup place ''primaryType'' = JStr ''night_club'' \<longrightarrow>
      bar_filter place = Inr True) \<and>
   bar_filter (JObj [(''displayName'', JObj [(''text'', JStr ''Joe's Bar'')])]) = Inr True \<and>
   bar_filter (JObj [(''displayName'', JObj [(''text'', JStr ''Coffee House'')]),
                     (''types'', JArr [JStr ''cafe''])]) = Inr False"
proof (intro conjI impI)
  assume "well_formed_place place"
  then show "bar_filter place = Inr (nightlife_spec place)"
    by (rule bar_filter_is_spec)
next
  assume "well_formed_place place \<and> lookup place ''primaryType'' = JStr ''night_club''"
  then show "bar_filter place = Inr True"
    by (simp add: bar_filter_is_spec nightlife_spec_def primary_category_def
                  contains_keyword_def category_keywords_def)
next
  show "bar_filter (JObj [(''displayName'', JObj [(''text'', JStr ''Joe's Bar'')])]) = Inr True"
    by code_simp
next
  show "bar_filter (JObj [(''displayName'', JObj [(''text'', JStr ''Coffee House'')]),
                     (''types'', JArr [JStr ''cafe''])]) = Inr False"
    by code_simp
qed

theorem bar_filter_classifies_witness:
  "well_formed_place
     (JObj [(''primaryType'', JStr ''night_club''),
            (''displayName'', JObj [(''text'', JStr ''Reading Room'')])]) \<and>
   lookup (JObj [(''primaryType'', JStr ''night_club''),
                 (''displayName'', JObj [(''text'', JStr ''Reading Room'')])]) ''primaryType'' =
     JStr ''night_club'' \<and>
   nightlife_spec
     (JObj [(''primaryType'', JStr ''night_club''),
            (''displayName'', JObj [(''text'', JStr ''Reading Room'')])]) \<and>
   bar_filter
     (JObj [(''primaryType'', JStr ''night_club''),
            (''displayName'', JObj [(''text'', JStr ''Reading Room'')])]) = Inr True"
proof -
  have wf: "well_formed_place
     (JObj [(''primaryType'', JStr ''night_club''),
            (''displayName'', JObj [(''text'', JStr ''Reading Room'')])])"
    by (simp add: well_formed_place_def is_obj_def absent_or_def is_str_def)
  have pt: "lookup (JObj [(''primaryType'', JStr ''night_club''),
                 (''displayName'', JObj [(''text'', JStr ''Reading Room'')])]) ''primaryType'' =
     JStr ''night_club''"
    by simp
  have ns: "nightlife_spec
     (JObj [(''primaryType'', JStr ''night_club''),
            (''displayName'', JObj [(''text'', JStr ''Reading Room'')])])"
    by code_simp
  from wf pt ns bar_filter_classifies[of "JObj [(''primaryType'', JStr ''night_club''),
            (''displayName'', JObj [(''text'', JStr ''Reading Room'')])]"]
  show ?thesis by simp
qed

section \<open>Nearby search\<close>

lemmas number_eval =
  Number_def parseFloat_def trim_def trimStart_def is_ws_def decimal_prefix_def
  unsigned_decimal_def exponent_part_def digit10_def digits_value_def to_double_code
  scale10_def radix_literal_def negate_def isFinite_def Let_def

lemma nearby_results_candidates:
  assumes places: "lookup data ''places'' = JArr ps"
    and wf: "list_all well_formed_place ps"
  shows "\<exists>venues. nearby_results data =
            Inr (JObj [(''results'', JArr venues), (''status'', JStr ''OK'')]) \<and>
          map Inr venues = map place_to_venue (filter (\<lambda>p. bar_filter p = Inr True) ps)"
proof -
  from places have nn: "\<not> nullish data"
    by (auto simp: nullish_def)
  have f: "filter_err bar_filter ps = Inr (filter nightlife_spec ps)"
    using wf by (intro filter_err_total) (simp add: list_all_iff bar_filter_is_spec)
  have same: "filter nightlife_spec ps = filter (\<lambda>p. bar_filter p = Inr True) ps"
    using wf by (intro filter_cong) (auto simp: list_all_iff bar_filter_is_spec)
  define kept where "kept = filter (\<lambda>p. bar_filter p = Inr True) ps"
  have "\<forall>p \<in> set kept. \<exists>v. place_to_venue p = Inr v"
    using wf by (auto simp: kept_def list_all_iff place_to_venue_well_formed)
  then obtain g where g: "\<And>p. p \<in> set kept \<Longrightarrow> place_to_venue p = Inr (g p)"
    by metis
  then have m: "map_err place_to_venue kept = Inr (map g kept)"
    by (intro map_err_total) simp
  have "map Inr (map g kept) = map place_to_venue kept"
    using g by simp
  moreover have "nearby_results data =
      Inr (JObj [(''results'', JArr (map g kept)), (''status'', JStr ''OK'')])"
    using nn places f m by (simp add: nearby_results_def member_def same kept_def)
  ultimately show ?thesis
    unfolding kept_def by blast
qed

lemma places_nearby_answer:
  assumes "configured key" "isFinite (parseFloat_q lat)" "isFinite (parseFloat_q lng)"
    and "up (nearby_request lat lng radius keyword) = Response st (Some data)" "ok st"
  shows "places_nearby key up lat lng radius keyword =
           ([nearby_request lat lng radius keyword], run (nearby_results data))"
  using assms by (simp add: places_nearby_def Let_def)

lemma server_places_nearby_answer:
  assumes "configured key"
    and "up (server_nearby_request lat lng radius keyword) = Response st (Some data)"
  shows "server_places_nearby key up lat lng radius keyword =
           ([server_nearby_request lat lng radius keyword], run (nearby_results data))"
  using assms by (simp add: server_places_nearby_def Let_def)

text \<open>
  C5. When the upstream search answers with a candidate list of well-formed place
  records, the result list of the nearby search is the normalization of exactly the
  candidates the classifier accepts, in the order of the candidate list. This holds for
  the hardened handler (configured, valid coordinates, successful status) and for the
  handler of \<^verbatim>\<open>server.js\<close>.
\<close>

theorem nearby_filters_then_normalizes:
  assumes places: "lookup data ''places'' = JArr ps"
    and wf: "list_all well_formed_place ps"
  shows "\<exists>venues.
           map Inr venues = map place_to_venue (filter (\<lambda>p. bar_filter p = Inr True) ps) \<and>
           (configured key \<and> isFinite (parseFloat_q lat) \<and> isFinite (parseFloat_q lng) \<and>
            up (nearby_request lat lng radius keyword) = Response st (Some data) \<and> ok st \<longrightarrow>
            places_nearby key up lat lng radius keyword =
              ([nearby_request lat lng radius keyword],
               Json 200 (JObj [(''results'', JArr venues), (''status'', JStr ''OK'')]))) \<and>
           (configured key \<and>
            up (server_nearby_request lat lng radius keyword) = Response st (Some data) \<longrightarrow>
            server_places_nearby key up lat lng radius keyword =
              ([server_nearby_request lat lng radius keyword],
               Json 200 (JObj [(''results'', JArr venues), (''status'', JStr ''OK'')])))"
proof -
  obtain venues where v: "nearby_results data =
            Inr (JObj [(''results'', JArr venues), (''status'', JStr ''OK'')])"
          "map Inr venues = map place_to_venue (filter (\<lambda>p. bar_filter p = Inr True) ps)"
    using nearby_results_candidates[OF places wf] by blast
  show ?thesis
    using v
    by (intro exI[of _ venues])
       (simp add: places_nearby_answer server_places_nearby_answer run_def)
qed

lemma sample_places_well_formed: "list_all well_formed_place sample_places"
  by (simp add: sample_places_def well_formed_place_def is_obj_def absent_or_def is_str_def
                is_str_array_def)

lemma sample_places_kept:
  "filter (\<lambda>p. bar_filter p = Inr True) sample_places = [sample_places ! 0, sample_places ! 2]"
proof -
  have "bar_filter (JObj [(''id'', JStr ''a''), (''displayName'', JObj [(''text'', JStr ''Alpha Bar'')])]) = Inr True"
    by code_simp
  moreover have "bar_filter (JObj [(''id'', JStr ''b''), (''displayName'', JObj [(''text'', JStr ''Coffee House'')]),
            (''types'', JArr [JStr ''cafe''])]) = Inr False"
    by code_simp
  moreover have "bar_filter (JObj [(''id'', JStr ''c''), (''primaryType'', JStr ''night_club'')]) = Inr True"
    by code_simp
  ultimately show ?thesis
    by (simp add: sample_places_def)
qed

theorem nearby_filters_then_normalizes_witness:
  "\<exists>venues.
     map Inr venues = map place_to_venue [sample_places ! 0, sample_places ! 2] \<and>
     places_nearby (Some ''key'') sample_upstream (Some ''40.7'') (Some ''-74.0'') None None =
       ([nearby_request (Some ''40.7'') (Some ''-74.0'') None None],
        Json 200 (JObj [(''results'', JArr venues), (''status'', JStr ''OK'')])) \<and>
     server_places_nearby (Some ''key'') sample_upstream (Some ''40.7'') (Some ''-74.0'') None None =
       ([server_nearby_request (Some ''40.7'') (Some ''-74.0'') None None],
        Json 200 (JObj [(''results'', JArr venues), (''status'', JStr ''OK'')]))"
proof -
  have key: "configured (Some ''key'')"
    by (simp add: configured_def present_def)
  have lat: "isFinite (parseFloat_q (Some ''40.7''))"
    by (simp add: parseFloat_q_def number_eval)
  have lng: "isFinite (parseFloat_q (Some ''-74.0''))"
    by (simp add: parseFloat_q_def number_eval)
  have up1: "sample_upstream (nearby_request (Some ''40.7'') (Some ''-74.0'') None None) =
               Response 200 (Some (JObj [(''places'', JArr sample_places)]))"
    by (simp add: nearby_request_def sample_upstream_def Let_def)
  have up2: "sample_upstream (server_nearby_request (Some ''40.7'') (Some ''-74.0'') None None) =
               Response 200 (Some (JObj [(''places'', JArr sample_places)]))"
    by (simp add: server_nearby_request_def sample_upstream_def)
  have okst: "ok 200"
    by (simp add: ok_def)
  have places: "lookup (JObj [(''places'', JArr sample_places)]) ''places'' = JArr sample_places"
    by simp
  from nearby_filters_then_normalizes[OF places sample_places_well_formed,
         where key = "Some ''key''" and lat = "Some ''40.7''" and lng = "Some ''-74.0''"
           and radius = None and keyword = None and up = sample_upstream and st = 200]
       key lat lng up1 up2 okst
  show ?thesis
    by (simp add: sample_places_kept)
qed

text \<open>The hardened handler answers 502 when the upstream status is not a success.\<close>

lemma places_nearby_upstream_failure:
  assumes "configured key" "isFinite (parseFloat_q lat)" "isFinite (parseFloat_q lng)"
    and "up (nearby_request lat lng radius keyword) = Response st body" "\<not> ok st"
  shows "places_nearby key up lat lng radius keyword =
           ([nearby_request lat lng radius keyword],
            Json 502 (err (''Places API failed with status '' @ show_nat st)))"
  using assms by (simp add: places_nearby_def Let_def)

text \<open>
  C7. A failed upstream status must surface as a 502 and never as an empty result. The
  handler of \<^verbatim>\<open>server.js\<close> does not look at the status: when the upstream answers 503,
  it replies 200 with an empty result list, tagged \<^verbatim>\<open>ZERO_RESULTS\<close> when the body carries
  no error and \<^verbatim>\<open>ERROR\<close> when it does.
\<close>

theorem server_places_nearby_ignores_status:
  "\<not> ok 503 \<and>
   snd (server_places_nearby (Some ''key'') (\<lambda>req. Response 503 (Some (JObj [])))
          (Some ''40.7'') (Some ''-74.0'') None None) =
     Json 200 (JObj [(''results'', JArr []), (''status'', JStr ''ZERO_RESULTS''),
                     (''error'', JUndefined)]) \<and>
   snd (server_places_nearby (Some ''key'')
          (\<lambda>req. Response 503 (Some (JObj [(''error'', JObj [(''code'', JNum (Fin 503))])])))
          (Some ''40.7'') (Some ''-74.0'') None None) =
     Json 200 (JObj [(''results'', JArr []), (''status'', JStr ''ERROR''),
                     (''error'', JObj [(''code'', JNum (Fin 503))])])"
  by (simp add: ok_def server_places_nearby_def configured_def present_def Let_def run_def
                nearby_results_def member_def nullish_def)

section \<open>Venue details\<close>

lemma join_lookups_settled:
  assumes "\<And>i. i \<in> set placeIds \<Longrightarrow> look i = Inr (g i)"
  shows "join_lookups look placeIds =
           (map PlaceLookup placeIds,
            Json 200 (JObj [(''results'', JArr (filter truthy (map g placeIds))),
                            (''status'', JStr ''OK'')]))"
  using assms by (simp add: join_lookups_def map_err_total)

lemma lookup_place_failed:
  "lookup_failed (up (PlaceLookup i)) \<Longrightarrow> lookup_place up i = Inr JNull"
  by (auto simp: lookup_failed_def lookup_place_def place_or_null_def member_def
           split: fetch_result.splits option.splits)

lemma lookup_place_found:
  assumes "lookup_found (up (PlaceLookup i))"
  shows "lookup_place up i = place_to_venue (body_of (up (PlaceLookup i))) \<and>
         (\<exists>v. place_to_venue (body_of (up (PlaceLookup i))) = Inr v \<and> truthy v)"
proof -
  from assms obtain st place where r: "up (PlaceLookup i) = Response st (Some place)"
      and okst: "ok st" and wf: "well_formed_place place"
      and noerr: "\<not> truthy (lookup place ''error'')"
    by (auto simp: lookup_found_def split: fetch_result.splits option.splits)
  obtain v where v: "place_to_venue place = Inr v"
    using place_to_venue_well_formed[OF wf] by blast
  then have "truthy v"
    by (auto simp: place_to_venue_def split: if_splits sum.splits)
  with r okst wf noerr v well_formed_not_nullish[OF wf] show ?thesis
    by (simp add: lookup_place_def place_or_null_def member_def body_of_def)
qed


lemma filter_zip_map:
  "map snd (filter (\<lambda>(i, r). P r) (zip xs (map g xs))) = filter P (map g xs)"
  by (induction xs) auto

text \<open>The sanitized list has at most ten entries, none empty, each without outer white space.\<close>

lemma trim_idem: "trim (trim s) = trim s"
proof -
  define ys where "ys = dropWhile is_ws s"
  define t where "t = rev (dropWhile is_ws (rev ys))"
  have t: "trim s = t"
    by (simp add: trim_def ys_def t_def)
  have front: "dropWhile is_ws t = t"
  proof (cases ys)
    case Nil
    then show ?thesis by (simp add: t_def)
  next
    case (Cons x xs)
    then have nx: "\<not> is_ws x"
      using hd_dropWhile[of is_ws s] by (simp add: ys_def)
    then have "t = [x] \<or> t = x # rev (dropWhile is_ws (rev xs))"
      by (simp add: t_def Cons dropWhile_append)
    with nx show ?thesis by auto
  qed
  have "rev t = dropWhile is_ws (rev ys)"
    by (simp add: t_def)
  then have rear: "dropWhile is_ws (rev t) = rev t"
    by (simp add: dropWhile_idem)
  have "trim t = rev (dropWhile is_ws (rev (dropWhile is_ws t)))"
    by (simp only: trim_def)
  also have "\<dots> = rev (dropWhile is_ws (rev t))"
    by (simp only: front)
  also have "\<dots> = t"
    by (simp only: rear rev_rev_ident)
  finally show ?thesis
    by (simp only: t)
qed

lemma sanitize_ids_props:
  "length (sanitize_ids s) \<le> 10 \<and> (\<forall>i \<in> set (sanitize_ids s). i \<noteq> [] \<and> trim i = i)"
  by (auto simp: sanitize_ids_def trim_idem dest!: in_set_takeD)


lemma sample_lookups:
  "lookup_found (sample_upstream (PlaceLookup ''a'')) \<and>
   lookup_failed (sample_upstream (PlaceLookup ''x'')) \<and>
   \<not> lookup_found (sample_upstream (PlaceLookup ''x'')) \<and>
   lookup_found (sample_upstream (PlaceLookup ''c'')) \<and>
   body_of (sample_upstream (PlaceLookup ''a'')) = sample_places ! 0 \<and>
   body_of (sample_upstream (PlaceLookup ''c'')) = sample_places ! 2"
  by (simp add: sample_upstream_def sample_places_def lookup_found_def lookup_failed_def
                body_of_def ok_def well_formed_place_def is_obj_def absent_or_def is_str_def
                nullish_def)


text \<open>
  The boundary of the best effort: a lookup whose \<^verbatim>\<open>fetch\<close> itself rejects is not
  dropped, it fails the batch with a 500.
\<close>

lemma places_details_rejected_fetch:
  assumes key: "configured key" and s: "s \<noteq> []" and i: "i \<in> set (sanitize_ids s)"
    and rej: "up (PlaceLookup i) = Rejected"
  shows "status_of (snd (places_details key up (Some s))) = 500"
proof -
  from i have ne: "sanitize_ids s \<noteq> []"
    by auto
  have "lookup_place up i = Inl FetchError"
    using rej by (simp add: lookup_place_def)
  then obtain e where "map_err (lookup_place up) (sanitize_ids s) = Inl e"
    using map_err_raises[OF i] by blast
  with key s ne show ?thesis
    by (simp add: places_details_def join_lookups_def status_of_def Let_def)
qed

text \<open>
  C10. The details batch keeps the input order. When no lookup raises, the outcomes are
  joined position by position with the identifiers looked up, and the result list is that
  list of outcomes with the \<^verbatim>\<open>null\<close> entries removed: each venue stands where its
  identifier stood relative to the others. This holds for the hardened handler and for
  the handler of \<^verbatim>\<open>server.js\<close>.
\<close>

theorem details_preserve_order:
  assumes key: "configured key" and s: "s \<noteq> []"
  shows "(sanitize_ids s \<noteq> [] \<and>
          (\<forall>i \<in> set (sanitize_ids s). \<exists>r. lookup_place up i = Inr r) \<longrightarrow>
            (\<exists>outcomes.
               map Inr outcomes = map (lookup_place up) (sanitize_ids s) \<and>
               snd (places_details key up (Some s)) =
                 Json 200 (JObj [(''results'', JArr (map snd (filter (\<lambda>(i, r). truthy r)
                                                     (zip (sanitize_ids s) outcomes)))),
                                 (''status'', JStr ''OK'')]))) \<and>
         ((\<forall>i \<in> set (take 10 (split_on CHR '','' s)). \<exists>r. server_lookup_place up i = Inr r) \<longrightarrow>
            (\<exists>outcomes.
               map Inr outcomes = map (server_lookup_place up) (take 10 (split_on CHR '','' s)) \<and>
               snd (server_places_details key up (Some s)) =
                 Json 200 (JObj [(''results'', JArr (map snd (filter (\<lambda>(i, r). truthy r)
                                            (zip (take 10 (split_on CHR '','' s)) outcomes)))),
                                 (''status'', JStr ''OK'')])))"
proof (intro conjI impI)
  assume h: "sanitize_ids s \<noteq> [] \<and> (\<forall>i \<in> set (sanitize_ids s). \<exists>r. lookup_place up i = Inr r)"
  then obtain g where g: "\<And>i. i \<in> set (sanitize_ids s) \<Longrightarrow> lookup_place up i = Inr (g i)"
    by metis
  have "places_details key up (Some s) = join_lookups (lookup_place up) (sanitize_ids s)"
    using key s h by (simp add: places_details_def Let_def)
  then have "snd (places_details key up (Some s)) =
      Json 200 (JObj [(''results'', JArr (filter truthy (map g (sanitize_ids s)))),
                      (''status'', JStr ''OK'')])"
    using join_lookups_settled[of "sanitize_ids s" "lookup_place up" g] g by simp
  moreover have "map Inr (map g (sanitize_ids s)) = map (lookup_place up) (sanitize_ids s)"
    using g by simp
  ultimately show "\<exists>outcomes.
               map Inr outcomes = map (lookup_place up) (sanitize_ids s) \<and>
               snd (places_details key up (Some s)) =
                 Json 200 (JObj [(''results'', JArr (map snd (filter (\<lambda>(i, r). truthy r)
                                                     (zip (sanitize_ids s) outcomes)))),
                                 (''status'', JStr ''OK'')])"
    by (intro exI[of _ "map g (sanitize_ids s)"]) (simp add: filter_zip_map)
next
  define ids where "ids = take 10 (split_on CHR '','' s)"
  assume "\<forall>i \<in> set (take 10 (split_on CHR '','' s)). \<exists>r. server_lookup_place up i = Inr r"
  then obtain g where g: "\<And>i. i \<in> set ids \<Longrightarrow> server_lookup_place up i = Inr (g i)"
    unfolding ids_def by metis
  have "server_places_details key up (Some s) = join_lookups (server_lookup_place up) ids"
    using key s by (simp add: server_places_details_def ids_def)
  then have "snd (server_places_details key up (Some s)) =
      Json 200 (JObj [(''results'', JArr (filter truthy (map g ids))),
                      (''status'', JStr ''OK'')])"
    using join_lookups_settled[of ids "server_lookup_place up" g] g by simp
  moreover have "map Inr (map g ids) = map (server_lookup_place up) ids"
    using g by simp
  ultimately show "\<exists>outcomes.
               map Inr outcomes = map (server_lookup_place up) (take 10 (split_on CHR '','' s)) \<and>
               snd (server_places_details key up (Some s)) =
                 Json 200 (JObj [(''results'', JArr (map snd (filter (\<lambda>(i, r). truthy r)
                                            (zip (take 10 (split_on CHR '','' s)) outcomes)))),
                                 (''status'', JStr ''OK'')])"
    unfolding ids_def[symmetric]
    by (intro exI[of _ "map g ids"]) (simp add: filter_zip_map)
qed

lemma sample_outcomes:
  "\<exists>va vc. place_to_venue (sample_places ! 0) = Inr va \<and> truthy va \<and>
           place_to_venue (sample_places ! 2) = Inr vc \<and> truthy vc \<and>
           map (lookup_place sample_upstream) [''a'', ''x'', ''c''] = [Inr va, Inr JNull, Inr vc] \<and>
           map (server_lookup_place sample_upstream) [''a'', ''x'', ''c''] =
             [Inr va, Inr JNull, Inr vc]"
proof -
  obtain va where va: "place_to_venue (sample_places ! 0) = Inr va" "truthy va"
    using lookup_place_found[of sample_upstream "''a''"] sample_lookups by auto
  obtain vc where vc: "place_to_venue (sample_places ! 2) = Inr vc" "truthy vc"
    using lookup_place_found[of sample_upstream "''c''"] sample_lookups by auto
  have "lookup_place sample_upstream ''a'' = Inr va" "lookup_place sample_upstream ''c'' = Inr vc"
       "lookup_place sample_upstream ''x'' = Inr JNull"
    using lookup_place_found[of sample_upstream "''a''"]
          lookup_place_found[of sample_upstream "''c''"]
          lookup_place_failed[of sample_upstream "''x''"] sample_lookups va vc
    by simp_all
  moreover have "server_lookup_place sample_upstream ''a'' = Inr va"
       "server_lookup_place sample_upstream ''c'' = Inr vc"
       "server_lookup_place sample_upstream ''x'' = Inr JNull"
    using va vc
    by (simp_all add: server_lookup_place_def sample_upstream_def place_or_null_def member_def
                      nullish_def sample_places_def)
  ultimately show ?thesis
    using va vc by simp
qed

theorem details_preserve_order_witness:
  "\<exists>va vc.
     place_to_venue (sample_places ! 0) = Inr va \<and>
     place_to_venue (sample_places ! 2) = Inr vc \<and>
     snd (places_details (Some ''key'') sample_upstream (Some ''a,x,c'')) =
       Json 200 (JObj [(''results'', JArr [va, vc]), (''status'', JStr ''OK'')]) \<and>
     snd (server_places_details (Some ''key'') sample_upstream (Some ''a,x,c'')) =
       Json 200 (JObj [(''results'', JArr [va, vc]), (''status'', JStr ''OK'')])"
proof -
  have key: "configured (Some ''key'')"
    by (simp add: configured_def present_def)
  have ne: "''a,x,c'' \<noteq> []"
    by simp
  have san: "sanitize_ids ''a,x,c'' = [''a'', ''x'', ''c'']"
            "take 10 (split_on CHR '','' ''a,x,c'') = [''a'', ''x'', ''c'']"
    by (simp_all add: sanitize_ids_def trim_def is_ws_def)
  obtain va vc where v: "place_to_venue (sample_places ! 0) = Inr va" "truthy va"
      "place_to_venue (sample_places ! 2) = Inr vc" "truthy vc"
      "map (lookup_place sample_upstream) [''a'', ''x'', ''c''] = [Inr va, Inr JNull, Inr vc]"
      "map (server_lookup_place sample_upstream) [''a'', ''x'', ''c''] =
         [Inr va, Inr JNull, Inr vc]"
    using sample_outcomes by (elim exE conjE) (rule that, assumption+)
  from details_preserve_order[OF key ne, where up = sample_upstream] san v
  have "snd (places_details (Some ''key'') sample_upstream (Some ''a,x,c'')) =
          Json 200 (JObj [(''results'', JArr [va, vc]), (''status'', JStr ''OK'')])"
       "snd (server_places_details (Some ''key'') sample_upstream (Some ''a,x,c'')) =
          Json 200 (JObj [(''results'', JArr [va, vc]), (''status'', JStr ''OK'')])"
    by auto
  with v show ?thesis
    by blast
qed

section \<open>Directions\<close>

lemma routes_reply_no_route:
  assumes "\<not> nullish data"
    and "nullish (lookup data ''routes'') \<or> lookup data ''routes'' = JArr []"
  shows "routes_reply formatDistance data =
           Inr (JObj [(''routes'', JArr []), (''error'', lookup data ''error'')])"
  using assms
  by (auto simp: routes_reply_def member_def opt_member_def greater_zero_def nullish_def)

lemma directions_answer:
  assumes "configured key" "parseLatLng origin = Some po" "parseLatLng destination = Some pd"
    and "up (directions_request po pd waypoints) = Response st (Some data)" "ok st"
  shows "directions key formatDistance up origin destination waypoints =
           ([directions_request po pd waypoints], run (routes_reply formatDistance data))"
  using assms by (simp add: directions_def Let_def)

lemma server_directions_answer:
  assumes "configured key"
    and "up (server_directions_request origin destination waypoints) = Response st (Some data)"
  shows "server_directions key formatDistance up (Some origin) (Some destination) waypoints =
           ([server_directions_request origin destination waypoints],
            run (routes_reply formatDistance data))"
  using assms by (simp add: server_directions_def Let_def)

text \<open>
  C8. When the routing answer is a JSON object with no routes (the field absent, null
  or an empty list), the directions handler replies 200 with an empty route list and the
  error field of the answer, whatever it is; it neither raises nor answers 502. This
  holds for the hardened handler (configured, valid origin and destination, successful
  status) and for the handler of \<^verbatim>\<open>server.js\<close>.
\<close>

theorem directions_no_route:
  assumes "\<not> nullish data"
    and "nullish (lookup data ''routes'') \<or> lookup data ''routes'' = JArr []"
  shows "(configured key \<and> parseLatLng origin = Some po \<and> parseLatLng destination = Some pd \<and>
          up (directions_request po pd waypoints) = Response st (Some data) \<and> ok st \<longrightarrow>
            directions key formatDistance up origin destination waypoints =
              ([directions_request po pd waypoints],
               Json 200 (JObj [(''routes'', JArr []), (''error'', lookup data ''error'')]))) \<and>
         (configured key \<and>
          up (server_directions_request orig dest waypoints) = Response st (Some data) \<longrightarrow>
            server_directions key formatDistance up (Some orig) (Some dest) waypoints =
              ([server_directions_request orig dest waypoints],
               Json 200 (JObj [(''routes'', JArr []), (''error'', lookup data ''error'')])))"
  using routes_reply_no_route[OF assms]
  by (simp add: directions_answer server_directions_answer run_def)

lemma sample_coordinates:
  "parseLatLng (Some ''40.7,-74.0'') = Some (Fin (407 / 10), Fin (- 74)) \<and>
   parseLatLng (Some ''40.8,-73.9'') = Some (Fin (204 / 5), Fin (- (739 / 10)))"
  by (simp add: parseLatLng_def number_eval)

theorem directions_no_route_witness:
  "directions (Some ''key'') (\<lambda>meters. []) sample_upstream
       (Some ''40.7,-74.0'') (Some ''40.8,-73.9'') None =
     ([directions_request (Fin (407 / 10), Fin (- 74)) (Fin (204 / 5), Fin (- (739 / 10))) None],
      Json 200 (JObj [(''routes'', JArr []), (''error'', JUndefined)])) \<and>
   server_directions (Some ''key'') (\<lambda>meters. []) sample_upstream
       (Some ''40.7,-74.0'') (Some ''40.8,-73.9'') None =
     ([server_directions_request ''40.7,-74.0'' ''40.8,-73.9'' None],
      Json 200 (JObj [(''routes'', JArr []), (''error'', JUndefined)]))"
proof -
  have key: "configured (Some ''key'')"
    by (simp add: configured_def present_def)
  have nn: "\<not> nullish (JObj [(''routes'', JArr [])])"
    by (simp add: nullish_def)
  have none: "nullish (lookup (JObj [(''routes'', JArr [])]) ''routes'') \<or>
              lookup (JObj [(''routes'', JArr [])]) ''routes'' = JArr []"
    by simp
  have up1: "sample_upstream (directions_request (Fin (407 / 10), Fin (- 74))
                (Fin (204 / 5), Fin (- (739 / 10))) None) =
              Response 200 (Some (JObj [(''routes'', JArr [])]))"
    by (simp add: directions_request_def sample_upstream_def)
  have up2: "sample_upstream (server_directions_request ''40.7,-74.0'' ''40.8,-73.9'' None) =
              Response 200 (Some (JObj [(''routes'', JArr [])]))"
    by (simp add: server_directions_request_def sample_upstream_def)
  have okst: "ok 200"
    by (simp add: ok_def)
  from directions_no_route[OF nn none, where key = "Some ''key''"
         and origin = "Some ''40.7,-74.0''" and destination = "Some ''40.8,-73.9''"
         and po = "(Fin (407 / 10), Fin (- 74))" and pd = "(Fin (204 / 5), Fin (- (739 / 10)))"
         and waypoints = None and up = sample_upstream and st = 200
         and orig = "''40.7,-74.0''" and dest = "''40.8,-73.9''"
         and formatDistance = "\<lambda>meters. []"]
       key sample_coordinates up1 up2 okst
  show ?thesis
    by simp
qed

text \<open>The hardened handler answers 502 when the routing status is not a success.\<close>

lemma directions_upstream_failure:
  assumes "configured key" "parseLatLng origin = Some po" "parseLatLng destination = Some pd"
    and "up (directions_request po pd waypoints) = Response st body" "\<not> ok st"
  shows "directions key formatDistance up origin destination waypoints =
           ([directions_request po pd waypoints],
            Json 502 (err (''Routes API failed with status '' @ show_nat st)))"
  using assms by (simp add: directions_def Let_def)

text \<open>
  The waypoints of the hardened handler: the one request it issues carries, as
  \<^verbatim>\<open>intermediates\<close>, the segments between \<^verbatim>\<open>|\<close> that parse to two finite numbers, in
  their order, cut to the first eight; with none left the field is omitted.
\<close>

lemma directions_issues_request:
  assumes "configured key" "parseLatLng origin = Some po" "parseLatLng destination = Some pd"
  shows "fst (directions key formatDistance up origin destination waypoints) =
           [directions_request po pd waypoints]"
  using assms
  by (simp add: directions_def Let_def split: fetch_result.splits option.splits)

lemma directions_request_intermediates:
  assumes "w \<noteq> []" and "directions_request po pd (Some w) = ComputeRoutes body"
  shows "lookup body ''intermediates'' =
           (if parsed_waypoints w = [] then JUndefined
            else JArr (map (\<lambda>wp. location (JNum (fst wp)) (JNum (snd wp))) (parsed_waypoints w)))"
  using assms by (auto simp: directions_request_def Let_def)

lemma keep_some_member: "p \<in> set (keep_some xs) \<Longrightarrow> Some p \<in> set xs"
  by (induction xs rule: keep_some.induct) auto

lemma keep_some_filter: "map Some (keep_some xs) = filter (\<lambda>x. x \<noteq> None) xs"
  by (induction xs rule: keep_some.induct) auto

lemma parsed_waypoints_props:
  "parsed_waypoints w =
     take 8 (keep_some (map (\<lambda>seg. parseLatLng (Some seg)) (split_on CHR ''|'' w))) \<and>
   length (parsed_waypoints w) \<le> 8 \<and>
   (\<forall>p \<in> set (parsed_waypoints w). isFinite (fst p) \<and> isFinite (snd p))"
proof -
  have "\<And>p. p \<in> set (parsed_waypoints w) \<Longrightarrow> \<exists>seg. parseLatLng (Some seg) = Some p"
    unfolding parsed_waypoints_def by (fastforce dest: in_set_takeD keep_some_member)
  moreover have "\<And>seg p. parseLatLng (Some seg) = Some p \<Longrightarrow> isFinite (fst p) \<and> isFinite (snd p)"
    by (auto simp: parseLatLng_def split: if_splits list.splits)
  ultimately show ?thesis
    by (fastforce simp: parsed_waypoints_def)
qed

lemma hardened_waypoints_example:
  "directions_request (Fin (407 / 10), Fin (- 74)) (Fin (204 / 5), Fin (- (739 / 10)))
       (Some ''abc|1,2'') =
     ComputeRoutes (JObj
       [(''origin'', location (JNum (Fin (407 / 10))) (JNum (Fin (- 74)))),
        (''destination'', location (JNum (Fin (204 / 5))) (JNum (Fin (- (739 / 10))))),
        (''travelMode'', JStr ''DRIVE''),
        (''intermediates'', JArr [location (JNum (Fin 1)) (JNum (Fin 2))])])"
  by (simp add: directions_request_def parsed_waypoints_def parseLatLng_def number_eval)

lemma server_directions_issues_request:
  assumes "configured key"
  shows "fst (server_directions key formatDistance up (Some orig) (Some dest) waypoints) =
           [server_directions_request orig dest waypoints]"
  using assms
  by (simp add: server_directions_def Let_def split: fetch_result.splits option.splits)

text \<open>
  C9. Waypoints that do not parse are to be dropped and the list cut to eight. The
  handler of \<^verbatim>\<open>server.js\<close> does neither: for the waypoints \<^verbatim>\<open>abc|1,2\<close> its routing
  request carries two intermediates, the first with latitude \<open>NaN\<close> and no longitude,
  and nine valid waypoints are all carried.
\<close>

theorem server_directions_keeps_every_waypoint:
  "fst (server_directions (Some ''key'') formatDistance up
          (Some ''40.7,-74.0'') (Some ''40.8,-73.9'') (Some ''abc|1,2'')) =
     [ComputeRoutes (JObj
       [(''origin'', location (JNum (Fin (407 / 10))) (JNum (Fin (- 74)))),
        (''destination'', location (JNum (Fin (204 / 5))) (JNum (Fin (- (739 / 10))))),
        (''travelMode'', JStr ''DRIVE''),
        (''intermediates'', JArr [location (JNum NaN) JUndefined,
                                  location (JNum (Fin 1)) (JNum (Fin 2))])])] \<and>
   fst (server_directions (Some ''key'') formatDistance up
          (Some ''40.7,-74.0'') (Some ''40.8,-73.9'')
          (Some ''1,1|2,2|3,3|4,4|5,5|6,6|7,7|8,8|9,9'')) =
     [ComputeRoutes (JObj
       [(''origin'', location (JNum (Fin (407 / 10))) (JNum (Fin (- 74)))),
        (''destination'', location (JNum (Fin (204 / 5))) (JNum (Fin (- (739 / 10))))),
        (''travelMode'', JStr ''DRIVE''),
        (''intermediates'', JArr
           [location (JNum (Fin 1)) (JNum (Fin 1)), location (JNum (Fin 2)) (JNum (Fin 2)),
            location (JNum (Fin 3)) (JNum (Fin 3)), location (JNum (Fin 4)) (JNum (Fin 4)),
            location (JNum (Fin 5)) (JNum (Fin 5)), location (JNum (Fin 6)) (JNum (Fin 6)),
            location (JNum (Fin 7)) (JNum (Fin 7)), location (JNum (Fin 8)) (JNum (Fin 8)),
            location (JNum (Fin 9)) (JNum (Fin 9))])])]"
proof -
  have key: "configured (Some ''key'')"
    by (simp add: configured_def present_def)
  have "server_directions_request ''40.7,-74.0'' ''40.8,-73.9'' (Some ''abc|1,2'') =
     ComputeRoutes (JObj
       [(''origin'', location (JNum (Fin (407 / 10))) (JNum (Fin (- 74)))),
        (''destination'', location (JNum (Fin (204 / 5))) (JNum (Fin (- (739 / 10))))),
        (''travelMode'', JStr ''DRIVE''),
        (''intermediates'', JArr [location (JNum NaN) JUndefined,
                                  location (JNum (Fin 1)) (JNum (Fin 2))])])"
    by (simp add: server_directions_request_def number_pair_def number_eval)
  moreover have "server_directions_request ''40.7,-74.0'' ''40.8,-73.9''
          (Some ''1,1|2,2|3,3|4,4|5,5|6,6|7,7|8,8|9,9'') =
     ComputeRoutes (JObj
       [(''origin'', location (JNum (Fin (407 / 10))) (JNum (Fin (- 74)))),
        (''destination'', location (JNum (Fin (204 / 5))) (JNum (Fin (- (739 / 10))))),
        (''travelMode'', JStr ''DRIVE''),
        (''intermediates'', JArr
           [location (JNum (Fin 1)) (JNum (Fin 1)), location (JNum (Fin 2)) (JNum (Fin 2)),
            location (JNum (Fin 3)) (JNum (Fin 3)), location (JNum (Fin 4)) (JNum (Fin 4)),
            location (JNum (Fin 5)) (JNum (Fin 5)), location (JNum (Fin 6)) (JNum (Fin 6)),
            location (JNum (Fin 7)) (JNum (Fin 7)), location (JNum (Fin 8)) (JNum (Fin 8)),
            location (JNum (Fin 9)) (JNum (Fin 9))])])"
    by (simp add: server_directions_request_def number_pair_def number_eval)
  ultimately show ?thesis
    by (simp only: server_directions_issues_request[OF key] simp_thms)
qed

end
